theory Spec2Isabelle
  imports Main "HOL-Library.Log_Nat"
begin

section \<open>JavaScript strings\<close>

text \<open>
  A JavaScript string is a sequence of UTF-16 code units. The grammar of this library
  mentions code units above 255 (the prime and the quotation marks), so a code unit is a
  natural number here and a string is a list of them. \<open>asc\<close> writes the ASCII part of
  a string from a HOL literal.
\<close>

type_synonym jsstring = "nat list"

definition asc :: "string \<Rightarrow> jsstring" where
  "asc s = map of_char s"

abbreviation DEGREE :: nat where "DEGREE \<equiv> 176"     \<comment> \<open>U+00B0, degree sign\<close>
abbreviation ORDM :: nat where "ORDM \<equiv> 186"         \<comment> \<open>U+00BA, masculine ordinal indicator\<close>
abbreviation LSQUO :: nat where "LSQUO \<equiv> 8216"      \<comment> \<open>U+2018, left single quotation mark\<close>
abbreviation RSQUO :: nat where "RSQUO \<equiv> 8217"      \<comment> \<open>U+2019, right single quotation mark\<close>
abbreviation PRIME :: nat where "PRIME \<equiv> 8242"      \<comment> \<open>U+2032, prime\<close>
abbreviation DPRIME :: nat where "DPRIME \<equiv> 8243"    \<comment> \<open>U+2033, double prime\<close>
abbreviation APOS :: nat where "APOS \<equiv> 39"          \<comment> \<open>apostrophe\<close>
abbreviation DQUOTE :: nat where "DQUOTE \<equiv> 34"      \<comment> \<open>quotation mark\<close>
abbreviation COLON :: nat where "COLON \<equiv> 58"
abbreviation MINUS :: nat where "MINUS \<equiv> 45"
abbreviation PLUS :: nat where "PLUS \<equiv> 43"
abbreviation DOT :: nat where "DOT \<equiv> 46"
abbreviation COMMA :: nat where "COMMA \<equiv> 44"
abbreviation SPACE :: nat where "SPACE \<equiv> 32"

text \<open>
  The white space of ECMAScript (WhiteSpace and LineTerminator): what \<open>trim\<close> removes,
  what \<open>\s\<close> matches and what \<open>parseFloat\<close> skips.
\<close>

definition isWS :: "nat \<Rightarrow> bool" where
  "isWS c \<longleftrightarrow>
     (9 \<le> c \<and> c \<le> 13) \<or> c = 32 \<or> c = 160 \<or> c = 5760 \<or> (8192 \<le> c \<and> c \<le> 8202)
     \<or> c = 8232 \<or> c = 8233 \<or> c = 8239 \<or> c = 8287 \<or> c = 12288 \<or> c = 65279"

definition isDigit :: "nat \<Rightarrow> bool" where
  "isDigit c \<longleftrightarrow> 48 \<le> c \<and> c \<le> 57"

definition trim :: "jsstring \<Rightarrow> jsstring" where
  "trim s = rev (dropWhile isWS (rev (dropWhile isWS s)))"

text \<open>
  \<open>String.prototype.substr(start)\<close> with one argument: a negative start counts from the
  end, and the result runs to the end of the string.
\<close>

definition substr :: "jsstring \<Rightarrow> int \<Rightarrow> jsstring" where
  "substr s start =
     (let n = int (length s);
          b = (if start < 0 then max (n + start) 0 else min start n)
      in drop (nat b) s)"

section \<open>The regular expression engine\<close>

text \<open>
  The fragment of ECMAScript regular expressions that \<open>DMS_REGREX\<close> is written in:
  character classes, sequence, alternative, the greedy quantifiers \<open>?\<close> on a term and
  \<open>+\<close>, \<open>{m,n}\<close> on a character class, and capture groups. Every quantified term of
  the pattern consumes at least one code unit, so the empty-iteration check of the
  standard never fires and is not modelled.

  The pattern carries the flag \<open>i\<close>: a code unit of the pattern and one of the input
  match when their canonical forms agree. Without the flag \<open>u\<close> the canonical form is
  the upper-case code unit, and a unit above 127 is never mapped to one below 128. The
  pattern's units above 127 have no case variants, so on this pattern the canonical form
  is the ASCII upper-casing.
\<close>

definition canon :: "nat \<Rightarrow> nat" where
  "canon c = (if 97 \<le> c \<and> c \<le> 122 then c - 32 else c)"

datatype cclass = Lit nat | Digit | Space

fun cmatch :: "cclass \<Rightarrow> nat \<Rightarrow> bool" where
  "cmatch (Lit a) c = (canon a = canon c)"
| "cmatch Digit c = isDigit c"
| "cmatch Space c = isWS c"

definition inClass :: "cclass list \<Rightarrow> nat \<Rightarrow> bool" where
  "inClass cs c = list_ex (\<lambda>a. cmatch a c) cs"

datatype regex =
    Chr "cclass list"                       \<comment> \<open>one code unit of a class\<close>
  | Seq regex regex
  | Alt regex regex
  | Opt regex                               \<comment> \<open>\<open>r?\<close>, greedy\<close>
  | Rep "cclass list" nat "nat option"      \<comment> \<open>\<open>[c]{lo,hi}\<close>, greedy; no upper bound is \<open>None\<close>\<close>
  | Grp nat regex                           \<comment> \<open>capture group number \<open>i\<close>\<close>

text \<open>
  The matcher is the backtracking matcher of the standard with its continuation made a
  stack of frames. A state is the input still to read and the captures made so far;
  \<open>Close i s\<close> ends group \<open>i\<close>, which began when the input still to read was \<open>s\<close>.
\<close>

datatype frame = R regex | Close nat jsstring

type_synonym captures = "nat \<Rightarrow> jsstring option"

fun rsize :: "regex \<Rightarrow> nat" where
  "rsize (Chr cs) = 1"
| "rsize (Seq a b) = 1 + rsize a + rsize b"
| "rsize (Alt a b) = 1 + rsize a + rsize b"
| "rsize (Opt a) = 1 + rsize a"
| "rsize (Rep cs lo hi) = 1"
| "rsize (Grp i a) = 2 + rsize a"

fun fsize :: "frame \<Rightarrow> nat" where
  "fsize (R r) = rsize r"
| "fsize (Close i s) = 1"

function (sequential) mt :: "frame list \<Rightarrow> jsstring \<Rightarrow> captures \<Rightarrow> (jsstring \<times> captures) option" where
  "mt [] s caps = Some (s, caps)"
| "mt (Close i st # k) s caps = mt k s (caps(i := Some (take (length st - length s) st)))"
| "mt (R (Chr cs) # k) [] caps = None"
| "mt (R (Chr cs) # k) (c # s) caps = (if inClass cs c then mt k s caps else None)"
| "mt (R (Seq a b) # k) s caps = mt (R a # R b # k) s caps"
| "mt (R (Alt a b) # k) s caps =
     (case mt (R a # k) s caps of Some r \<Rightarrow> Some r | None \<Rightarrow> mt (R b # k) s caps)"
| "mt (R (Opt a) # k) s caps =
     (case mt (R a # k) s caps of Some r \<Rightarrow> Some r | None \<Rightarrow> mt k s caps)"
| "mt (R (Rep cs lo hi) # k) s caps =
     (if hi = Some 0 then mt k s caps
      else case s of
        [] \<Rightarrow> (if lo = 0 then mt k s caps else None)
      | c # s' \<Rightarrow>
          (if inClass cs c
           then (case mt (R (Rep cs (lo - 1) (map_option (\<lambda>h. h - 1) hi)) # k) s' caps of
                   Some r \<Rightarrow> Some r
                 | None \<Rightarrow> (if lo = 0 then mt k s caps else None))
           else (if lo = 0 then mt k s caps else None)))"
| "mt (R (Grp i a) # k) s caps = mt (R a # Close i s # k) s caps"
  by pat_completeness auto
termination
  by (relation "inv_image (less_than <*lex*> less_than)
                  (\<lambda>(k, s, caps). (length s, sum_list (map fsize k)))")
     auto

text \<open>
  \<open>DMS_REGREX\<close>, term by term (code units above 127 written \<open>\uXXXX\<close>):
  \<^verbatim>\<open>([NSEW])?(-)?(\d+(?:\.\d+)?)[\u00B0\u00BA:d\s]?\s?\<close>
  \<^verbatim>\<open>(?:(\d+(?:\.\d+)?)['\u2019\u2018\u2032:]\s?\<close>
  \<^verbatim>\<open>(?:(\d{1,2}(?:\.\d+)?)(?:"|\u2033|\u2019\u2019|'')?)?)?\s?([NSEW])?\<close>
  with the flag \<open>i\<close>.
\<close>

definition NSEW :: "cclass list" where
  "NSEW = [Lit 78, Lit 83, Lit 69, Lit 87]"

definition decimal :: "nat \<Rightarrow> nat option \<Rightarrow> regex" where
  \<comment> \<open>\<open>\d{lo,hi}(?:\.\d+)?\<close>\<close>
  "decimal lo hi = Seq (Rep [Digit] lo hi) (Opt (Seq (Chr [Lit DOT]) (Rep [Digit] 1 None)))"

definition secondsUnit :: regex where
  \<comment> \<open>the alternatives for the unit of seconds: \<open>"\<close>, U+2033, U+2019 twice, \<open>'\<close> twice\<close>
  "secondsUnit =
     Alt (Chr [Lit DQUOTE])
      (Alt (Chr [Lit DPRIME])
        (Alt (Seq (Chr [Lit RSQUO]) (Chr [Lit RSQUO]))
             (Seq (Chr [Lit APOS]) (Chr [Lit APOS]))))"

definition secondsPart :: regex where
  \<comment> \<open>group 5, \<open>(\d{1,2}(?:\.\d+)?)\<close>, and the optional unit of seconds\<close>
  "secondsPart = Seq (Grp 5 (decimal 1 (Some 2))) (Opt secondsUnit)"

definition minutesPart :: regex where
  \<comment> \<open>group 4, \<open>(\d+(?:\.\d+)?)\<close>, the unit of minutes, \<open>\s?\<close>, the optional seconds\<close>
  "minutesPart =
     Seq (Grp 4 (decimal 1 None))
      (Seq (Chr [Lit APOS, Lit RSQUO, Lit LSQUO, Lit PRIME, Lit COLON])
        (Seq (Opt (Chr [Space])) (Opt secondsPart)))"

definition DMS_REGREX :: regex where
  "DMS_REGREX =
     Seq (Opt (Grp 1 (Chr NSEW)))
      (Seq (Opt (Grp 2 (Chr [Lit MINUS])))
        (Seq (Grp 3 (decimal 1 None))
          (Seq (Opt (Chr [Lit DEGREE, Lit ORDM, Lit COLON, Lit 100, Space]))
            (Seq (Opt (Chr [Space]))
              (Seq (Opt minutesPart)
                (Seq (Opt (Chr [Space]))
                     (Opt (Grp 6 (Chr NSEW)))))))))"

text \<open>
  \<open>String.prototype.match\<close> with a pattern that has no flag \<open>g\<close>: the match at the
  leftmost position where there is one. The result is the array of the standard, index
  \<open>0\<close> the matched text and index \<open>i\<close> the text of group \<open>i\<close>; \<open>None\<close> at an index
  is \<open>undefined\<close>, and the result \<open>None\<close> is \<open>null\<close>.
\<close>

definition matchAt :: "regex \<Rightarrow> jsstring \<Rightarrow> captures option" where
  "matchAt r s =
     (case mt [R r] s (\<lambda>i. None) of
        None \<Rightarrow> None
      | Some (rest, caps) \<Rightarrow> Some (caps(0 := Some (take (length s - length rest) s))))"

fun match :: "regex \<Rightarrow> jsstring \<Rightarrow> captures option" where
  "match r [] = matchAt r []"
| "match r (c # s) = (case matchAt r (c # s) of Some m \<Rightarrow> Some m | None \<Rightarrow> match r s)"



section \<open>JavaScript numbers\<close>

text \<open>
  A Number is an IEEE 754 binary64 value: not-a-number, an infinity, or a finite value,
  kept here as the rational it denotes. Every arithmetic operation computes the exact
  result and rounds it to the nearest binary64 value, ties to the even significand
  (\<open>rnd\<close>). The two zeros are one value \<open>Fin 0\<close>: this library never divides by a
  variable, and comparison, \<open>toFixed\<close> and the conversion to a string do not tell the
  zeros apart.
\<close>

datatype jsnum = NaN | PInf | NInf | Fin rat

definition ilog2 :: "rat \<Rightarrow> int" where
  \<comment> \<open>for \<open>a > 0\<close>, the integer \<open>e\<close> with \<open>2 ^ e \<le> a < 2 ^ (e + 1)\<close>\<close>
  "ilog2 a = (if 1 \<le> a then bitlen \<lfloor>a\<rfloor> - 1 else - bitlen (\<lceil>1 / a\<rceil> - 1))"

definition pow2 :: "int \<Rightarrow> rat" where
  "pow2 q = (if 0 \<le> q then 2 ^ nat q else 1 / 2 ^ nat (- q))"

definition roundEven :: "rat \<Rightarrow> int" where
  "roundEven r =
     (let f = \<lfloor>r\<rfloor>; d = r - of_int f
      in if d < 1 / 2 then f else if 1 / 2 < d then f + 1 else if even f then f else f + 1)"

definition rnd :: "rat \<Rightarrow> jsnum" where
  "rnd x =
     (if x = 0 then Fin 0
      else let a = \<bar>x\<bar>;
               q = max (ilog2 a - 52) (- 1074);
               y = of_int (roundEven (a / pow2 q)) * pow2 q
           in if 2 ^ 1024 \<le> y then (if 0 < x then PInf else NInf)
              else Fin (if 0 < x then y else - y))"

fun fneg :: "jsnum \<Rightarrow> jsnum" where
  "fneg NaN = NaN"
| "fneg PInf = NInf"
| "fneg NInf = PInf"
| "fneg (Fin a) = Fin (- a)"

fun fadd :: "jsnum \<Rightarrow> jsnum \<Rightarrow> jsnum" where
  "fadd NaN y = NaN"
| "fadd x NaN = NaN"
| "fadd PInf NInf = NaN"
| "fadd NInf PInf = NaN"
| "fadd PInf y = PInf"
| "fadd NInf y = NInf"
| "fadd x PInf = PInf"
| "fadd x NInf = NInf"
| "fadd (Fin a) (Fin b) = rnd (a + b)"

definition fsub :: "jsnum \<Rightarrow> jsnum \<Rightarrow> jsnum" where
  "fsub x y = fadd x (fneg y)"

fun fmul :: "jsnum \<Rightarrow> jsnum \<Rightarrow> jsnum" where
  "fmul NaN y = NaN"
| "fmul x NaN = NaN"
| "fmul (Fin a) (Fin b) = rnd (a * b)"
| "fmul (Fin a) y = (if a = 0 then NaN else if 0 < a then y else fneg y)"
| "fmul x (Fin b) = (if b = 0 then NaN else if 0 < b then x else fneg x)"
| "fmul PInf y = y"
| "fmul NInf y = fneg y"

text \<open>
  Division by a literal: the library divides by \<open>60\<close> and by \<open>3600\<close> only, so the
  divisor is a positive rational.
\<close>

fun fdiv :: "jsnum \<Rightarrow> rat \<Rightarrow> jsnum" where
  "fdiv (Fin a) d = rnd (a / d)"
| "fdiv x d = x"

text \<open>The comparisons: each is false when an operand is not-a-number.\<close>

fun fle :: "jsnum \<Rightarrow> jsnum \<Rightarrow> bool" where
  "fle NaN y = False"
| "fle x NaN = False"
| "fle NInf y = True"
| "fle x PInf = True"
| "fle PInf y = False"
| "fle x NInf = False"
| "fle (Fin a) (Fin b) = (a \<le> b)"

fun flt :: "jsnum \<Rightarrow> jsnum \<Rightarrow> bool" where
  "flt NaN y = False"
| "flt x NaN = False"
| "flt PInf y = False"
| "flt x NInf = False"
| "flt NInf y = True"
| "flt x PInf = True"
| "flt (Fin a) (Fin b) = (a < b)"

definition fge :: "jsnum \<Rightarrow> jsnum \<Rightarrow> bool" where
  "fge x y = fle y x"

definition fgt :: "jsnum \<Rightarrow> jsnum \<Rightarrow> bool" where
  "fgt x y = flt y x"

fun fabs :: "jsnum \<Rightarrow> jsnum" where
  "fabs NaN = NaN"
| "fabs PInf = PInf"
| "fabs NInf = PInf"
| "fabs (Fin a) = Fin \<bar>a\<bar>"

fun ffloor :: "jsnum \<Rightarrow> jsnum" where
  "ffloor (Fin a) = Fin (of_int \<lfloor>a\<rfloor>)"
| "ffloor x = x"

section \<open>Strings to numbers\<close>

text \<open>
  \<open>strDecimal\<close> reads the longest prefix of a string that is a \<open>StrDecimalLiteral\<close>
  of the standard: an optional sign, then \<open>Infinity\<close> or decimal digits with an
  optional fraction and an optional exponent. It returns the Number of that prefix and
  the rest of the string. The value of the literal is rounded once, to nearest.
\<close>

definition digitsVal :: "jsstring \<Rightarrow> int" where
  "digitsVal ds = foldl (\<lambda>a c. 10 * a + int (c - 48)) 0 ds"

definition pow10 :: "int \<Rightarrow> rat" where
  "pow10 q = (if 0 \<le> q then 10 ^ nat q else 1 / 10 ^ nat (- q))"

definition exponentPart :: "jsstring \<Rightarrow> int \<times> jsstring" where
  "exponentPart s =
     (case s of
        [] \<Rightarrow> (0, s)
      | e # t \<Rightarrow>
          if e = 101 \<or> e = 69
          then (let neg = (t \<noteq> [] \<and> hd t = MINUS);
                    u = (if t \<noteq> [] \<and> (hd t = PLUS \<or> hd t = MINUS) then tl t else t);
                    ds = takeWhile isDigit u
                in if ds = [] then (0, s)
                   else (if neg then - digitsVal ds else digitsVal ds,
                         dropWhile isDigit u))
          else (0, s))"

definition strUnsignedDecimal :: "jsstring \<Rightarrow> (jsnum \<times> jsstring) option" where
  "strUnsignedDecimal s =
     (if take 8 s = asc ''Infinity'' then Some (PInf, drop 8 s)
      else let ip = takeWhile isDigit s;
               r1 = dropWhile isDigit s;
               dot = (r1 \<noteq> [] \<and> hd r1 = DOT);
               fp = (if dot then takeWhile isDigit (tl r1) else []);
               r2 = (if dot then dropWhile isDigit (tl r1) else r1)
           in if ip = [] \<and> fp = [] then None
              else (case exponentPart r2 of
                      (ex, r3) \<Rightarrow>
                        Some (rnd (of_int (digitsVal (ip @ fp)) * pow10 (ex - int (length fp))),
                              r3)))"

definition strDecimal :: "jsstring \<Rightarrow> (jsnum \<times> jsstring) option" where
  "strDecimal s =
     (case s of
        [] \<Rightarrow> None
      | c # t \<Rightarrow>
          if c = PLUS then strUnsignedDecimal t
          else if c = MINUS then map_option (\<lambda>(v, r). (fneg v, r)) (strUnsignedDecimal t)
          else strUnsignedDecimal s)"

text \<open>\<open>parseFloat\<close>: skip leading white space, read the longest decimal literal.\<close>

definition parseFloat :: "jsstring \<Rightarrow> jsnum" where
  "parseFloat s = (case strDecimal (dropWhile isWS s) of None \<Rightarrow> NaN | Some (v, r) \<Rightarrow> v)"

text \<open>
  \<open>Number(s)\<close> on a string: white space is trimmed; the empty string is \<open>0\<close>; the
  whole of what is left must be a decimal literal or a binary, octal or hexadecimal
  integer literal.
\<close>

definition digitOf :: "nat \<Rightarrow> nat" where
  "digitOf c =
     (if isDigit c then c - 48
      else if 97 \<le> c \<and> c \<le> 102 then c - 87
      else if 65 \<le> c \<and> c \<le> 70 then c - 55
      else 16)"

definition nonDecimal :: "jsstring \<Rightarrow> jsnum" where
  "nonDecimal t =
     (case t of
        z # x # ds \<Rightarrow>
          (let base = (if x = 98 \<or> x = 66 then 2
                       else if x = 111 \<or> x = 79 then 8
                       else if x = 120 \<or> x = 88 then 16 else 0)
           in if z = 48 \<and> base \<noteq> 0 \<and> ds \<noteq> [] \<and> list_all (\<lambda>c. digitOf c < base) ds
              then rnd (of_int (foldl (\<lambda>a c. int base * a + int (digitOf c)) 0 ds))
              else NaN)
      | _ \<Rightarrow> NaN)"

definition Number :: "jsstring \<Rightarrow> jsnum" where
  "Number s =
     (let t = trim s
      in if t = [] then Fin 0
         else case strDecimal t of
                Some (v, []) \<Rightarrow> v
              | _ \<Rightarrow> nonDecimal t)"

section \<open>The parsers\<close>

text \<open>
  The errors the library throws, named as the specification names them; each is an
  \<open>Error\<close> with the message given.
\<close>

datatype error =
    ParseError                 \<comment> \<open>\<open>Could not parse string\<close>\<close>
  | DegreesOutOfRange          \<comment> \<open>\<open>Degrees out of range\<close>\<close>
  | MinutesOutOfRange          \<comment> \<open>\<open>Minutes out of range\<close>\<close>
  | SecondsOutOfRange          \<comment> \<open>\<open>Seconds out of range\<close>\<close>
  | PairRangeError             \<comment> \<open>\<open>Lon/Lat values out of range\<close>\<close>
  | InvalidCoordinateError     \<comment> \<open>\<open>Not a valid coordinate\<close>\<close>
  | ToFixedRangeError          \<comment> \<open>the \<open>RangeError\<close> of \<open>toFixed\<close>\<close>

text \<open>
  \<open>SIGN_INDEX\<close> is an object literal read with a capture as the key; the key of an
  absent capture is the string \<open>undefined\<close>, which the table does not hold. The
  names an object inherits, such as \<open>constructor\<close>, are longer than any text that
  groups 1, 2 and 6 of the grammar capture, and are left out.
\<close>

definition SIGN_INDEX :: "jsstring \<rightharpoonup> rat" where
  "SIGN_INDEX = map_of [(asc ''-'', - 1), (asc ''N'', 1), (asc ''S'', - 1), (asc ''E'', 1), (asc ''W'', - 1)]"

definition signAt :: "jsstring option \<Rightarrow> rat option" where
  "signAt k = SIGN_INDEX (case k of None \<Rightarrow> asc ''undefined'' | Some s \<Rightarrow> s)"

definition inRange :: "jsnum \<Rightarrow> jsnum \<Rightarrow> jsnum \<Rightarrow> bool" where
  "inRange v a b \<longleftrightarrow> fge v a \<and> fle v b"

definition degreesOf :: "captures \<Rightarrow> jsnum" where
  \<comment> \<open>\<open>Number(m[3])\<close>\<close>
  "degreesOf m = (case m 3 of None \<Rightarrow> NaN | Some s \<Rightarrow> Number s)"

definition partOf :: "captures \<Rightarrow> nat \<Rightarrow> jsnum" where
  \<comment> \<open>\<open>m[i] ? Number(m[i]) : 0\<close>: an absent capture and the empty string are falsy\<close>
  "partOf m i = (case m i of None \<Rightarrow> Fin 0 | Some s \<Rightarrow> if s = [] then Fin 0 else Number s)"

definition signOf :: "captures \<Rightarrow> rat" where
  \<comment> \<open>\<open>SIGN_INDEX[m[2]] || SIGN_INDEX[m[1]] || SIGN_INDEX[m[6]] || 1\<close>\<close>
  "signOf m =
     (case signAt (m 2) of
        Some v \<Rightarrow> v
      | None \<Rightarrow>
          (case signAt (m 1) of
             Some v \<Rightarrow> v
           | None \<Rightarrow> (case signAt (m 6) of Some v \<Rightarrow> v | None \<Rightarrow> 1)))"

definition decDegFromMatch :: "captures \<Rightarrow> error + jsnum" where
  "decDegFromMatch m =
     (let sign = signOf m;
          degrees = degreesOf m;
          minutes = partOf m 4;
          seconds = partOf m 5
      in if \<not> inRange degrees (Fin 0) (Fin 180) then Inl DegreesOutOfRange
         else if \<not> inRange minutes (Fin 0) (Fin 60) then Inl MinutesOutOfRange
         else if \<not> inRange seconds (Fin 0) (Fin 60) then Inl SecondsOutOfRange
         else Inr (fmul (Fin sign) (fadd (fadd degrees (fdiv minutes 60)) (fdiv seconds 3600))))"

definition matched :: "captures \<Rightarrow> jsstring" where
  \<comment> \<open>\<open>m[0]\<close>, the matched text\<close>
  "matched m = (case m 0 of None \<Rightarrow> [] | Some w \<Rightarrow> w)"

definition fromDMS :: "jsstring \<Rightarrow> error + jsnum list" where
  "fromDMS value =
     (let v = trim value
      in case match DMS_REGREX v of
           None \<Rightarrow> Inl ParseError
         | Some matchLat \<Rightarrow>
             (let lonString =
                    (if matchLat 1 \<noteq> None
                     then trim (substr v (int (length (matched matchLat)) - 1))
                     else trim (substr v (int (length (matched matchLat)))))
              in case match DMS_REGREX lonString of
                   None \<Rightarrow> Inl ParseError
                 | Some matchLon \<Rightarrow>
                     (case decDegFromMatch matchLon of
                        Inl e \<Rightarrow> Inl e
                      | Inr lon \<Rightarrow>
                          (case decDegFromMatch matchLat of
                             Inl e \<Rightarrow> Inl e
                           | Inr lat \<Rightarrow> Inr [lon, lat]))))"


text \<open>
  \<open>fromDMM\<close>. \<open>splitOn\<close> is \<open>String.prototype.split\<close> with a separator of one code
  unit; \<open>remove1 MINUS\<close> is \<open>replace('-', '')\<close>, which removes the first minus only.
  A value that the source leaves \<open>undefined\<close> is \<open>None\<close>.
\<close>

fun splitOn :: "nat \<Rightarrow> jsstring \<Rightarrow> jsstring list" where
  "splitOn sep [] = [[]]"
| "splitOn sep (c # s) =
     (if c = sep then [] # splitOn sep s
      else case splitOn sep s of [] \<Rightarrow> [[c]] | p # ps \<Rightarrow> (c # p) # ps)"

definition isNumber :: "jsnum option \<Rightarrow> bool" where
  \<comment> \<open>\<open>typeof v == 'number' && !isNaN(v)\<close>\<close>
  "isNumber v \<longleftrightarrow> v \<noteq> None \<and> v \<noteq> Some NaN"

definition toNum :: "jsnum option \<Rightarrow> jsnum" where
  \<comment> \<open>a value in a comparison: \<open>undefined\<close> compares as not-a-number\<close>
  "toNum v = (case v of None \<Rightarrow> NaN | Some x \<Rightarrow> x)"

text \<open>
  The source writes the next block twice, once for \<open>parts[0]\<close> (latitude) and once for
  \<open>parts[1]\<close> (longitude); \<open>halfValue\<close> is that block.
\<close>

definition halfValue :: "jsstring \<Rightarrow> jsnum option" where
  "halfValue part =
     (let orientation = (if take 1 (trim part) = [MINUS] then - 1 else (1::rat))
      in case splitOn SPACE (trim part) of
           [] \<Rightarrow> None
         | p0 # ps \<Rightarrow>
             (let decimalGrad = (if orientation = - 1 then parseFloat (remove1 MINUS p0)
                                 else parseFloat p0);
                  decimalMinutes = (case ps of [] \<Rightarrow> Fin 0 | p1 # _ \<Rightarrow> parseFloat p1)
              in if isNumber (Some decimalGrad) \<and> isNumber (Some decimalMinutes)
                 then Some (fmul (Fin orientation) (fadd decimalGrad (fdiv decimalMinutes 60)))
                 else None))"

definition fromDMM :: "jsstring \<Rightarrow> error + jsnum list" where
  "fromDMM value =
     (let v = trim value
      in if COMMA \<notin> set v then Inl ParseError
         else case splitOn COMMA v of
                [part0, part1] \<Rightarrow>
                  (let valueLat = halfValue part0;
                       valueLon = halfValue part1
                   in if \<not> isNumber valueLon \<or> \<not> isNumber valueLat then Inl ParseError
                      else if \<not> inRange (toNum valueLon) (Fin (- 180)) (Fin 180)
                              \<or> \<not> inRange (toNum valueLat) (Fin (- 90)) (Fin 90)
                      then Inl PairRangeError
                      else Inr [toNum valueLon, toNum valueLat])
              | _ \<Rightarrow> Inl ParseError)"

text \<open>
  The two halves and the value of a half in the words of the specification, to compare
  \<open>fromDMM\<close> with. The latitude half is the text before the comma, the longitude
  half the text after it. A half is trimmed; its sign is \<open>-1\<close> exactly when it then
  starts with a minus; its tokens are separated by the space character; the first token,
  less that minus, is read by \<open>parseFloat\<close> as the degrees and the second, when
  there is one, as the minutes; the value is \<open>sign * (degrees + minutes / 60)\<close>. A
  half is bad when a token reads as not-a-number or the two read as infinities of opposite
  sign, whose sum is not a number.
\<close>

definition latHalf :: "jsstring \<Rightarrow> jsstring" where
  "latHalf v = takeWhile (\<lambda>c. c \<noteq> COMMA) v"

definition lonHalf :: "jsstring \<Rightarrow> jsstring" where
  "lonHalf v = drop 1 (dropWhile (\<lambda>c. c \<noteq> COMMA) v)"

definition halfSign :: "jsstring \<Rightarrow> rat" where
  "halfSign part = (case trim part of [] \<Rightarrow> 1 | c # t \<Rightarrow> if c = MINUS then - 1 else 1)"

definition halfDegrees :: "jsstring \<Rightarrow> jsnum" where
  "halfDegrees part =
     (let tok = takeWhile (\<lambda>c. c \<noteq> SPACE) (trim part)
      in parseFloat (if halfSign part = - 1 then drop 1 tok else tok))"

definition halfMinutes :: "jsstring \<Rightarrow> jsnum" where
  "halfMinutes part =
     (case dropWhile (\<lambda>c. c \<noteq> SPACE) (trim part) of
        [] \<Rightarrow> Fin 0
      | sp # rest \<Rightarrow> parseFloat (takeWhile (\<lambda>c. c \<noteq> SPACE) rest))"

definition halfOf :: "jsstring \<Rightarrow> jsnum" where
  "halfOf part =
     fmul (Fin (halfSign part)) (fadd (halfDegrees part) (fdiv (halfMinutes part) 60))"

definition badHalf :: "jsstring \<Rightarrow> bool" where
  "badHalf part \<longleftrightarrow>
     halfDegrees part = NaN \<or> halfMinutes part = NaN
     \<or> (halfDegrees part = PInf \<and> halfMinutes part = NInf)
     \<or> (halfDegrees part = NInf \<and> halfMinutes part = PInf)"

section \<open>The classifiers\<close>

text \<open>
  \<open>DOES_CONTAIN_SPECIAL_CHARS\<close> is one regular expression object of the module, made
  with the flag \<open>g\<close>. \<open>RegExp.prototype.test\<close> on such an object starts its search at
  the object's \<open>lastIndex\<close> and writes \<open>lastIndex\<close> back: the index after the match when
  there is one, \<open>0\<close> when there is none. \<open>lastIndex\<close> is the only state of the module;
  it is \<open>0\<close> when the module is loaded. The pattern has no flag \<open>i\<close>.
\<close>

definition DOES_CONTAIN_SPECIAL_CHARS :: "nat list" where
  "DOES_CONTAIN_SPECIAL_CHARS = [78, 83, 69, 87, DEGREE, APOS, RSQUO, LSQUO, PRIME, COLON, DQUOTE, DPRIME]"

fun firstSpecial :: "jsstring \<Rightarrow> nat option" where
  "firstSpecial [] = None"
| "firstSpecial (c # s) =
     (if c \<in> set DOES_CONTAIN_SPECIAL_CHARS then Some 0 else map_option Suc (firstSpecial s))"

definition testSpecial :: "jsstring \<Rightarrow> nat \<Rightarrow> bool \<times> nat" where
  "testSpecial s lastIndex =
     (if length s < lastIndex then (False, 0)
      else case firstSpecial (drop lastIndex s) of
             None \<Rightarrow> (False, 0)
           | Some j \<Rightarrow> (True, lastIndex + j + 1))"

text \<open>
  Each classifier takes \<open>lastIndex\<close> and returns its answer with the new \<open>lastIndex\<close>.
  \<open>&&\<close> evaluates its right operand only when the left one holds, so \<open>test\<close> runs
  only after \<open>fromDMM\<close> has returned a pair.
\<close>

definition isDMM :: "jsstring \<Rightarrow> nat \<Rightarrow> bool \<times> nat" where
  "isDMM value lastIndex =
     (case fromDMM value of
        Inl e \<Rightarrow> (False, lastIndex)
      | Inr v \<Rightarrow>
          if length v = 2
          then (case testSpecial value lastIndex of (found, li) \<Rightarrow> (\<not> found, li))
          else (False, lastIndex))"

definition isDMS :: "jsstring \<Rightarrow> nat \<Rightarrow> bool \<times> nat" where
  "isDMS value lastIndex =
     (case fromDMS value of
        Inl e \<Rightarrow> (False, lastIndex)
      | Inr v \<Rightarrow>
          if length v = 2
          then (case isDMM value lastIndex of (dmm, li) \<Rightarrow> (\<not> dmm, li))
          else (False, lastIndex))"

section \<open>The formatter\<close>

text \<open>
  Numbers to strings. The integer parts are converted by \<open>Number::toString\<close>, which
  prints a whole number below \<open>2 ^ 53\<close> by its decimal digits. Above that, and in
  \<open>toFixed\<close> from \<open>10 ^ 21\<close> on, the standard prints the shortest digits that read
  back as the same Number: that printer is the parameter \<open>big\<close> of the functions below,
  and no coordinate of a place on Earth reaches it.
\<close>

function digitsOfNat :: "nat \<Rightarrow> jsstring" where
  "digitsOfNat n = (if n < 10 then [48 + n] else digitsOfNat (n div 10) @ [48 + n mod 10])"
  by pat_completeness auto
termination
  by (relation "measure id") auto

declare digitsOfNat.simps [simp del]

definition numToString :: "(rat \<Rightarrow> jsstring) \<Rightarrow> jsnum \<Rightarrow> jsstring" where
  "numToString big x =
     (case x of
        NaN \<Rightarrow> asc ''NaN''
      | PInf \<Rightarrow> asc ''Infinity''
      | NInf \<Rightarrow> asc ''-Infinity''
      | Fin r \<Rightarrow>
          if of_int \<lfloor>r\<rfloor> = r \<and> \<bar>r\<bar> < 2 ^ 53
          then (if r < 0 then [MINUS] else []) @ digitsOfNat (nat \<lfloor>\<bar>r\<bar>\<rfloor>)
          else big r)"

definition toFixed :: "(rat \<Rightarrow> jsstring) \<Rightarrow> jsnum \<Rightarrow> nat \<Rightarrow> error + jsstring" where
  "toFixed big x f =
     (if 100 < f then Inl ToFixedRangeError
      else Inr (case x of
        NaN \<Rightarrow> asc ''NaN''
      | PInf \<Rightarrow> asc ''Infinity''
      | NInf \<Rightarrow> asc ''-Infinity''
      | Fin r \<Rightarrow>
          (let s = (if r < 0 then [MINUS] else []);
               a = \<bar>r\<bar>
           in if 10 ^ 21 \<le> a then s @ big a
              else let n = \<lfloor>a * 10 ^ f + 1 / 2\<rfloor>;
                       m = digitsOfNat (nat n);
                       z = replicate (f + 1 - length m) 48 @ m
                   in if f = 0 then s @ m
                      else s @ take (length z - f) z @ [DOT] @ drop (length z - f) z)))"

text \<open>
  \<open>replace\<close> with a pattern of literal characters and the flag \<open>g\<close>: every occurrence,
  left to right, without overlap. No replacement text of this library holds a dollar
  sign, so the replacement is inserted as it is.
\<close>

function replaceAll :: "jsstring \<Rightarrow> jsstring \<Rightarrow> jsstring \<Rightarrow> jsstring" where
  "replaceAll pat rep [] = []"
| "replaceAll pat rep (c # s) =
     (if pat \<noteq> [] \<and> take (length pat) (c # s) = pat
      then rep @ replaceAll pat rep (drop (length pat - 1) s)
      else c # replaceAll pat rep s)"
  by pat_completeness auto
termination
  by (relation "measure (\<lambda>(pat, rep, s). length s)") auto

text \<open>
  The source passes the one-element array \<open>[coordinate[i]]\<close> to \<open>computeFor\<close>;
  \<open>Math.abs\<close> and \<open><\<close> convert it back to the number it holds, so \<open>initValue\<close> is
  that number here.
\<close>

record coordValues =
  initValue :: jsnum
  degrees :: jsnum
  degreesInt :: jsnum
  degreesFrac :: jsnum
  secondsTotal :: jsnum
  minutes :: jsnum
  minutesInt :: jsnum
  seconds :: jsnum

definition computeFor :: "jsnum \<Rightarrow> coordValues" where
  "computeFor iv =
     (let dg = fabs iv;
          dgInt = ffloor dg;
          dgFrac = fsub dg dgInt;
          secTotal = fmul (Fin 3600) dgFrac;
          mins = fdiv secTotal 60;
          minsInt = ffloor mins;
          secs = fsub secTotal (fmul minsInt (Fin 60))
      in \<lparr>initValue = iv, degrees = dg, degreesInt = dgInt, degreesFrac = dgFrac,
          secondsTotal = secTotal, minutes = mins, minutesInt = minsInt, seconds = secs\<rparr>)"

record config =
  north :: bool
  east :: bool
  latValues :: coordValues
  lonValues :: coordValues

text \<open>The coordinate is \<open>[longitude, latitude]\<close>: index \<open>0\<close> and index \<open>1\<close>.\<close>

definition computeCoordinateConfig :: "jsnum \<Rightarrow> jsnum \<Rightarrow> config" where
  "computeCoordinateConfig c0 c1 =
     \<lparr>north = fgt c1 (Fin 0), east = fgt c0 (Fin 0),
      latValues = computeFor c1, lonValues = computeFor c0\<rparr>"

record options =
  decimalPlaces :: nat
  latLonSeparator :: jsstring

definition formatFor ::
  "(rat \<Rightarrow> jsstring) \<Rightarrow> jsstring \<Rightarrow> options \<Rightarrow> coordValues \<Rightarrow> jsstring \<Rightarrow> error + jsstring" where
  "formatFor big format opts vals X =
     (case toFixed big (degrees vals) (decimalPlaces opts) of
        Inl e \<Rightarrow> Inl e
      | Inr d \<Rightarrow>
     (case toFixed big (minutes vals) (decimalPlaces opts) of
        Inl e \<Rightarrow> Inl e
      | Inr m \<Rightarrow>
     (case toFixed big (seconds vals) (decimalPlaces opts) of
        Inl e \<Rightarrow> Inl e
      | Inr s \<Rightarrow>
          (let f1 = replaceAll (asc ''DD'') (numToString big (degreesInt vals) @ [DEGREE]) format;
               f2 = replaceAll (asc ''dd'') (d @ [DEGREE]) f1;
               f3 = replaceAll (asc ''D'') (numToString big (degreesInt vals)) f2;
               f4 = replaceAll (asc ''d'') d f3;
               f5 = replaceAll (asc ''MM'') (numToString big (minutesInt vals) @ [PRIME]) f4;
               f6 = replaceAll (asc ''mm'') (m @ [PRIME]) f5;
               f7 = replaceAll (asc ''M'') (numToString big (minutesInt vals)) f6;
               f8 = replaceAll (asc ''m'') m f7;
               f9 = replaceAll (asc ''ss'') (s @ [DPRIME]) f8;
               f10 = replaceAll (asc ''s'') s f9;
               f11 = replaceAll (asc ''-'') (if flt (initValue vals) (Fin 0) then asc ''-'' else []) f10
           in Inr (replaceAll (asc ''X'') X f11)))))"

text \<open>
  \<open>toDMS\<close>. An absent argument is \<open>None\<close>; \<open>Object.assign\<close> lets each field of the
  caller's options replace the default.
\<close>

record optOptions =
  optDecimalPlaces :: "nat option"
  optLatLonSeparator :: "jsstring option"

definition toDMS ::
  "(rat \<Rightarrow> jsstring) \<Rightarrow> jsnum list \<Rightarrow> jsstring option \<Rightarrow> optOptions option \<Rightarrow> error + jsstring" where
  "toDMS big coordinate optFormatStr optOpts =
     (case coordinate of
        [c0, c1] \<Rightarrow>
          (let format = (case optFormatStr of None \<Rightarrow> asc ''DD MM ss X'' | Some f \<Rightarrow> f);
               given = (case optOpts of
                          None \<Rightarrow> \<lparr>optDecimalPlaces = None, optLatLonSeparator = None\<rparr>
                        | Some g \<Rightarrow> g);
               opts = \<lparr>decimalPlaces = (case optDecimalPlaces given of None \<Rightarrow> 5 | Some n \<Rightarrow> n),
                       latLonSeparator =
                         (case optLatLonSeparator given of None \<Rightarrow> asc '' '' | Some sp \<Rightarrow> sp)\<rparr>;
               coordConf = computeCoordinateConfig c0 c1
           in case formatFor big format opts (latValues coordConf)
                     (if north coordConf then asc ''N'' else asc ''S'') of
                Inl e \<Rightarrow> Inl e
              | Inr lat \<Rightarrow>
                  (case formatFor big format opts (lonValues coordConf)
                          (if east coordConf then asc ''E'' else asc ''W'') of
                     Inl e \<Rightarrow> Inl e
                   | Inr lon \<Rightarrow> Inr (lat @ latLonSeparator opts @ lon)))
      | _ \<Rightarrow> Inl InvalidCoordinateError)"

text \<open>
  The string of the round-trip test: 35 degrees 16 minutes 55.20000 seconds S, 149
  degrees 7 minutes 43.26240 seconds E, with the degree sign, the prime and the double
  prime as units.
\<close>

definition ROUND_TRIP_TEXT :: jsstring where
  "ROUND_TRIP_TEXT =
     asc ''35'' @ [DEGREE] @ asc '' 16'' @ [PRIME] @ asc '' 55.20000'' @ [DPRIME] @ asc '' S ''
     @ asc ''149'' @ [DEGREE] @ asc '' 7'' @ [PRIME] @ asc '' 43.26240'' @ [DPRIME] @ asc '' E''"

text \<open>
  The coordinates of the round trip. A numeric literal denotes the Number that
  \<open>Number\<close> gives for its text, and \<open>-35.282\<close> is the negation of a literal.
\<close>

definition LON_149_128684 :: jsnum where
  "LON_149_128684 = Number (asc ''149.128684'')"

definition LON_149_12868400000002 :: jsnum where
  "LON_149_12868400000002 = Number (asc ''149.12868400000002'')"

definition LAT_MINUS_35_282 :: jsnum where
  "LAT_MINUS_35_282 = fneg (Number (asc ''35.282''))"

section \<open>Evaluation rules\<close>

text \<open>The definitions a concrete run of the parsers unfolds.\<close>

lemmas regex_defs =
  matchAt_def DMS_REGREX_def NSEW_def decimal_def minutesPart_def secondsPart_def
  secondsUnit_def inClass_def isDigit_def isWS_def canon_def

lemmas string_defs = asc_def trim_def substr_def matched_def

text \<open>Bit lengths, floors and ceilings of numerals, for rounding a concrete rational.\<close>

lemma bitlen_numeral [simp]:
  "bitlen 1 = 1"
  "bitlen (numeral (Num.Bit0 k)) = bitlen (numeral k) + 1"
  "bitlen (numeral (Num.Bit1 k)) = bitlen (numeral k) + 1"
proof -
  show "bitlen 1 = 1" by (simp add: compute_bitlen [of 1])
  have "(numeral (Num.Bit0 k) :: int) div 2 = numeral k" by simp
  then show "bitlen (numeral (Num.Bit0 k)) = bitlen (numeral k) + 1"
    by (subst compute_bitlen) simp
  have "(numeral (Num.Bit1 k) :: int) div 2 = numeral k" by simp
  then show "bitlen (numeral (Num.Bit1 k)) = bitlen (numeral k) + 1"
    by (subst compute_bitlen) simp
qed

lemma floor_rat_numeral [simp]:
  "\<lfloor>numeral a / numeral b :: rat\<rfloor> = numeral a div numeral b"
  using floor_divide_of_int_eq [of "numeral a" "numeral b", where ?'a = rat] by simp

lemma ceiling_rat_numeral [simp]:
  "\<lceil>numeral a / numeral b :: rat\<rceil> = - (- numeral a div numeral b)"
  using floor_divide_of_int_eq [of "- numeral a" "numeral b", where ?'a = rat]
  by (simp add: ceiling_def)

lemma floor_rat_one_numeral [simp]:
  "\<lfloor>1 / numeral b :: rat\<rfloor> = 1 div numeral b"
  using floor_divide_of_int_eq [of 1 "numeral b", where ?'a = rat] by simp

lemma ceiling_rat_one_numeral [simp]:
  "\<lceil>1 / numeral b :: rat\<rceil> = - (- 1 div numeral b)"
  using floor_divide_of_int_eq [of "- 1" "numeral b", where ?'a = rat]
  by (simp add: ceiling_def)

lemmas num_defs = rnd_def ilog2_def roundEven_def pow2_def pow10_def Let_def

lemma replicate_numeral:
  "replicate (numeral k) x = x # replicate (pred_numeral k) x"
  by (simp add: numeral_eq_Suc)

text \<open>The decimal digits of a numeral, one unfolding at a time.\<close>

lemma digitsOfNat_numeral:
  "digitsOfNat 0 = [48]"
  "digitsOfNat 1 = [49]"
  "digitsOfNat (Suc 0) = [49]"
  "digitsOfNat (numeral k) =
     (if (numeral k :: nat) < 10 then [48 + numeral k]
      else digitsOfNat (numeral k div 10) @ [48 + numeral k mod 10])"
  by (subst digitsOfNat.simps, simp)+

lemmas format_defs =
  toDMS_def computeCoordinateConfig_def computeFor_def formatFor_def toFixed_def
  numToString_def fsub_def fgt_def digitsOfNat_numeral replicate_numeral

lemmas parse_defs =
  Number_def parseFloat_def strDecimal_def strUnsignedDecimal_def exponentPart_def
  digitsVal_def nonDecimal_def digitOf_def

lemmas extract_defs =
  decDegFromMatch_def degreesOf_def partOf_def signOf_def signAt_def SIGN_INDEX_def

lemmas eval_defs = regex_defs string_defs parse_defs num_defs extract_defs

lemmas dmm_defs = fromDMM_def halfValue_def isNumber_def toNum_def

lemmas classifier_defs = isDMS_def isDMM_def testSpecial_def DOES_CONTAIN_SPECIAL_CHARS_def

section \<open>Every match consumes input\<close>






section \<open>The Decimal-Degree Extractor\<close>

lemma inRange_Fin [simp]: "inRange (Fin r) (Fin a) (Fin b) \<longleftrightarrow> a \<le> r \<and> r \<le> b"
  by (simp add: inRange_def fge_def)

lemma inRange_not_finite [simp]:
  "\<not> inRange NaN (Fin a) (Fin b)" "\<not> inRange PInf (Fin a) (Fin b)" "\<not> inRange NInf (Fin a) (Fin b)"
  by (simp_all add: inRange_def fge_def)

lemma inRange_iff: "inRange x (Fin a) (Fin b) \<longleftrightarrow> (\<exists>r. x = Fin r \<and> a \<le> r \<and> r \<le> b)"
  by (cases x) simp_all

text \<open>
  C2. The extractor succeeds exactly when the degrees are a number in \<open>[0, 180]\<close>, the
  minutes a number in \<open>[0, 60]\<close> and the seconds a number in \<open>[0, 60]\<close>. Otherwise it
  fails with the error of the first window that is missed, degrees before minutes before
  seconds. The magnitudes are read from the captures: the degrees are \<open>Number\<close> of
  group 3 (not a number when the group is absent); the minutes and the seconds are
  \<open>Number\<close> of groups 4 and 5 when the group holds text, and \<open>0\<close> when the group is
  absent or empty. The three checks read the magnitudes only: whatever the captures of
  the sign (groups 1, 2 and 6) hold, the same error is raised.
\<close>

theorem decDegFromMatch_validation:
  "((\<exists>v. decDegFromMatch m = Inr v) \<longleftrightarrow>
      (\<exists>d. degreesOf m = Fin d \<and> 0 \<le> d \<and> d \<le> 180) \<and>
      (\<exists>mi. partOf m 4 = Fin mi \<and> 0 \<le> mi \<and> mi \<le> 60) \<and>
      (\<exists>se. partOf m 5 = Fin se \<and> 0 \<le> se \<and> se \<le> 60))
   \<and> (decDegFromMatch m = Inl DegreesOutOfRange \<longleftrightarrow>
      \<not> (\<exists>d. degreesOf m = Fin d \<and> 0 \<le> d \<and> d \<le> 180))
   \<and> (decDegFromMatch m = Inl MinutesOutOfRange \<longleftrightarrow>
      (\<exists>d. degreesOf m = Fin d \<and> 0 \<le> d \<and> d \<le> 180) \<and>
      \<not> (\<exists>mi. partOf m 4 = Fin mi \<and> 0 \<le> mi \<and> mi \<le> 60))
   \<and> (decDegFromMatch m = Inl SecondsOutOfRange \<longleftrightarrow>
      (\<exists>d. degreesOf m = Fin d \<and> 0 \<le> d \<and> d \<le> 180) \<and>
      (\<exists>mi. partOf m 4 = Fin mi \<and> 0 \<le> mi \<and> mi \<le> 60) \<and>
      \<not> (\<exists>se. partOf m 5 = Fin se \<and> 0 \<le> se \<and> se \<le> 60))
   \<and> (m 3 = Some ds \<longrightarrow> degreesOf m = Number ds)
   \<and> (m 3 = None \<longrightarrow> degreesOf m = NaN)
   \<and> (m 4 = Some s4 \<and> s4 \<noteq> [] \<longrightarrow> partOf m 4 = Number s4)
   \<and> (m 4 = None \<or> m 4 = Some [] \<longrightarrow> partOf m 4 = Fin 0)
   \<and> (m 5 = Some s5 \<and> s5 \<noteq> [] \<longrightarrow> partOf m 5 = Number s5)
   \<and> (m 5 = None \<or> m 5 = Some [] \<longrightarrow> partOf m 5 = Fin 0)
   \<and> (decDegFromMatch (m(1 := h, 2 := sg, 6 := h')) = Inl e \<longleftrightarrow> decDegFromMatch m = Inl e)"
proof -
  have sign_free:
    "degreesOf (m(1 := h, 2 := sg, 6 := h')) = degreesOf m"
    "partOf (m(1 := h, 2 := sg, 6 := h')) 4 = partOf m 4"
    "partOf (m(1 := h, 2 := sg, 6 := h')) 5 = partOf m 5"
    by (simp_all add: degreesOf_def partOf_def)
  have last: "decDegFromMatch (m(1 := h, 2 := sg, 6 := h')) = Inl e \<longleftrightarrow> decDegFromMatch m = Inl e"
    unfolding decDegFromMatch_def Let_def sign_free by simp
  have rest:
    "((\<exists>v. decDegFromMatch m = Inr v) \<longleftrightarrow>
        inRange (degreesOf m) (Fin 0) (Fin 180) \<and> inRange (partOf m 4) (Fin 0) (Fin 60)
        \<and> inRange (partOf m 5) (Fin 0) (Fin 60))"
    "(decDegFromMatch m = Inl DegreesOutOfRange \<longleftrightarrow> \<not> inRange (degreesOf m) (Fin 0) (Fin 180))"
    "(decDegFromMatch m = Inl MinutesOutOfRange \<longleftrightarrow>
        inRange (degreesOf m) (Fin 0) (Fin 180) \<and> \<not> inRange (partOf m 4) (Fin 0) (Fin 60))"
    "(decDegFromMatch m = Inl SecondsOutOfRange \<longleftrightarrow>
        inRange (degreesOf m) (Fin 0) (Fin 180) \<and> inRange (partOf m 4) (Fin 0) (Fin 60)
        \<and> \<not> inRange (partOf m 5) (Fin 0) (Fin 60))"
    by (simp_all add: decDegFromMatch_def Let_def)
  have ties:
    "m 3 = Some ds \<longrightarrow> degreesOf m = Number ds"
    "m 3 = None \<longrightarrow> degreesOf m = NaN"
    "m 4 = Some s4 \<and> s4 \<noteq> [] \<longrightarrow> partOf m 4 = Number s4"
    "m 4 = None \<or> m 4 = Some [] \<longrightarrow> partOf m 4 = Fin 0"
    "m 5 = Some s5 \<and> s5 \<noteq> [] \<longrightarrow> partOf m 5 = Number s5"
    "m 5 = None \<or> m 5 = Some [] \<longrightarrow> partOf m 5 = Fin 0"
    by (auto simp: partOf_def degreesOf_def)
  show ?thesis
    using rest last ties by (simp add: inRange_iff)
qed

text \<open>
  The theorem at four matches of the grammar, three of them from the tests of the
  repository: 190 degrees miss the first window, 65 minutes the second, 65.5 seconds the
  third, and 59 degrees 12 minutes 7.7 seconds south are extracted.
\<close>

theorem decDegFromMatch_validation_witness:
  "(case match DMS_REGREX (asc ''190'') of
      None \<Rightarrow> False
    | Some m \<Rightarrow>
        m 3 = Some (asc ''190'') \<and> m 4 = None \<and> m 5 = None
        \<and> partOf m 4 = Fin 0 \<and> partOf m 5 = Fin 0
        \<and> degreesOf m = Number (asc ''190'')
        \<and> decDegFromMatch m = Inl DegreesOutOfRange
        \<and> \<not> (\<exists>d. degreesOf m = Fin d \<and> 0 \<le> d \<and> d \<le> 180)
        \<and> decDegFromMatch (m(1 := Some (asc ''S''), 2 := None, 6 := None)) = Inl DegreesOutOfRange)
   \<and> (case match DMS_REGREX (asc ''59'' @ [DEGREE] @ asc ''65'' @ [APOS] @ asc ''7.7'' @ [DQUOTE]) of
      None \<Rightarrow> False
    | Some m \<Rightarrow>
        m 3 = Some (asc ''59'') \<and> m 4 = Some (asc ''65'') \<and> m 5 = Some (asc ''7.7'')
        \<and> degreesOf m = Fin 59 \<and> partOf m 4 = Fin 65
        \<and> decDegFromMatch m = Inl MinutesOutOfRange
        \<and> decDegFromMatch (m(1 := None, 2 := Some (asc ''-''), 6 := Some (asc ''W''))) = Inl MinutesOutOfRange)
   \<and> (case match DMS_REGREX (asc ''59'' @ [DEGREE] @ asc ''12'' @ [APOS] @ asc ''65.5'' @ [DQUOTE]) of
      None \<Rightarrow> False
    | Some m \<Rightarrow>
        m 3 = Some (asc ''59'') \<and> m 4 = Some (asc ''12'') \<and> m 5 = Some (asc ''65.5'')
        \<and> degreesOf m = Fin 59 \<and> partOf m 4 = Fin 12 \<and> partOf m 5 = Fin (131 / 2)
        \<and> decDegFromMatch m = Inl SecondsOutOfRange)
   \<and> (case match DMS_REGREX (asc ''59'' @ [DEGREE] @ asc ''12'' @ [APOS] @ asc ''7.7'' @ [DQUOTE] @ asc ''S'') of
      None \<Rightarrow> False
    | Some m \<Rightarrow>
        m 3 = Some (asc ''59'') \<and> m 4 = Some (asc ''12'') \<and> m 5 = Some (asc ''7.7'')
        \<and> degreesOf m = Fin 59 \<and> partOf m 4 = Fin 12
        \<and> partOf m 5 = Fin (8669429282688205 / 1125899906842624)
        \<and> (\<exists>v. decDegFromMatch m = Inr v))"
proof -
  have nums:
    "Number (asc ''190'') = Fin 190" "Number (asc ''59'') = Fin 59" "Number (asc ''65'') = Fin 65"
    "Number (asc ''12'') = Fin 12" "Number (asc ''65.5'') = Fin (131 / 2)"
    "Number (asc ''7.7'') = Fin (8669429282688205 / 1125899906842624)"
    by (simp_all add: parse_defs num_defs string_defs isDigit_def isWS_def)
  have ne: "asc ''65'' \<noteq> []" "asc ''12'' \<noteq> []" "asc ''65.5'' \<noteq> []" "asc ''7.7'' \<noteq> []"
    by (simp_all add: asc_def)
  obtain a where a: "match DMS_REGREX (asc ''190'') = Some a"
    and ca: "a 3 = Some (asc ''190'')" "a 4 = None" "a 5 = None"
    by (simp add: regex_defs string_defs)
  obtain b where b: "match DMS_REGREX (asc ''59'' @ [DEGREE] @ asc ''65'' @ [APOS] @ asc ''7.7'' @ [DQUOTE]) = Some b"
    and cb: "b 3 = Some (asc ''59'')" "b 4 = Some (asc ''65'')" "b 5 = Some (asc ''7.7'')"
    by (simp add: regex_defs string_defs)
  obtain c where c: "match DMS_REGREX (asc ''59'' @ [DEGREE] @ asc ''12'' @ [APOS] @ asc ''65.5'' @ [DQUOTE]) = Some c"
    and cc: "c 3 = Some (asc ''59'')" "c 4 = Some (asc ''12'')" "c 5 = Some (asc ''65.5'')"
    by (simp add: regex_defs string_defs)
  obtain d where d: "match DMS_REGREX (asc ''59'' @ [DEGREE] @ asc ''12'' @ [APOS] @ asc ''7.7'' @ [DQUOTE] @ asc ''S'') = Some d"
    and cd: "d 3 = Some (asc ''59'')" "d 4 = Some (asc ''12'')" "d 5 = Some (asc ''7.7'')"
    by (simp add: regex_defs string_defs)
  have A: "partOf a 4 = Fin 0 \<and> partOf a 5 = Fin 0 \<and> degreesOf a = Number (asc ''190'')
      \<and> decDegFromMatch a = Inl DegreesOutOfRange
      \<and> \<not> (\<exists>d. degreesOf a = Fin d \<and> 0 \<le> d \<and> d \<le> 180)
      \<and> decDegFromMatch (a(1 := Some (asc ''S''), 2 := None, 6 := None)) = Inl DegreesOutOfRange"
    using ca nums
      decDegFromMatch_validation [where m = a and ds = "asc ''190''" and h = "Some (asc ''S'')"
        and sg = None and h' = None and e = DegreesOutOfRange]
    by simp
  have B: "degreesOf b = Fin 59 \<and> partOf b 4 = Fin 65 \<and> decDegFromMatch b = Inl MinutesOutOfRange
      \<and> decDegFromMatch (b(1 := None, 2 := Some (asc ''-''), 6 := Some (asc ''W''))) = Inl MinutesOutOfRange"
    using cb nums ne
      decDegFromMatch_validation [where m = b and ds = "asc ''59''" and ?s4.0 = "asc ''65''"
        and ?s5.0 = "asc ''7.7''" and h = None and sg = "Some (asc ''-'')" and h' = "Some (asc ''W'')"
        and e = MinutesOutOfRange]
    by simp
  have C: "degreesOf c = Fin 59 \<and> partOf c 4 = Fin 12 \<and> partOf c 5 = Fin (131 / 2)
      \<and> decDegFromMatch c = Inl SecondsOutOfRange"
    using cc nums ne
      decDegFromMatch_validation [where m = c and ds = "asc ''59''" and ?s4.0 = "asc ''12''"
        and ?s5.0 = "asc ''65.5''"]
    by simp
  have D0: "degreesOf d = Fin 59 \<and> partOf d 4 = Fin 12
      \<and> partOf d 5 = Fin (8669429282688205 / 1125899906842624)"
    using cd nums ne
      decDegFromMatch_validation [where m = d and ds = "asc ''59''" and ?s4.0 = "asc ''12''"
        and ?s5.0 = "asc ''7.7''"]
    by simp
  have w3: "\<exists>x. degreesOf d = Fin x \<and> 0 \<le> x \<and> x \<le> 180"
    using D0 by (intro exI [of _ 59]) simp
  have w4: "\<exists>x. partOf d 4 = Fin x \<and> 0 \<le> x \<and> x \<le> 60"
    using D0 by (intro exI [of _ 12]) simp
  have w5: "\<exists>x. partOf d 5 = Fin x \<and> 0 \<le> x \<and> x \<le> 60"
    using D0 by (intro exI [of _ "8669429282688205 / 1125899906842624"]) simp
  have D: "degreesOf d = Fin 59 \<and> partOf d 4 = Fin 12
      \<and> partOf d 5 = Fin (8669429282688205 / 1125899906842624) \<and> (\<exists>v. decDegFromMatch d = Inr v)"
    using D0 w3 w4 w5 decDegFromMatch_validation [where m = d, THEN conjunct1] by blast
  show ?thesis
    using a ca A b cb B c cc C d cd D by simp
qed

section \<open>The DMS parser\<close>



text \<open>
  The cut point is an index into the trimmed input, counted from its start, also when
  the first match begins later: in \<open>x 5 6\<close> the first match is \<open>5\<close> with the space
  after it, of length \<open>2\<close>, the remainder is \<open>5 6\<close>, and both axes read \<open>5\<close>.
\<close>

lemma fromDMS_cut_counts_from_start:
  "fromDMS (asc ''x 5 6'') = Inr [Fin 5, Fin 5]"
  by (simp add: fromDMS_def eval_defs)

subsection \<open>The value and the sign of a match\<close>

text \<open>
  When the three windows hold, the value is the sign times the sum. With captures in
  upper case the sign follows the priority of the specification: a minus first, then the
  leading letter, then the trailing letter, then \<open>+1\<close>. A letter in lower case is not
  a key of \<open>SIGN_INDEX\<close>.
\<close>

lemma decDegFromMatch_value:
  assumes "inRange (degreesOf m) (Fin 0) (Fin 180)"
    and "inRange (partOf m 4) (Fin 0) (Fin 60)"
    and "inRange (partOf m 5) (Fin 0) (Fin 60)"
  shows "decDegFromMatch m =
     Inr (fmul (Fin (signOf m))
            (fadd (fadd (degreesOf m) (fdiv (partOf m 4) 60)) (fdiv (partOf m 5) 3600)))"
  using assms by (simp add: decDegFromMatch_def Let_def)

lemma signAt_table:
  "signAt None = None"
  "signAt (Some (asc ''-'')) = Some (- 1)"
  "signAt (Some (asc ''N'')) = Some 1"
  "signAt (Some (asc ''S'')) = Some (- 1)"
  "signAt (Some (asc ''E'')) = Some 1"
  "signAt (Some (asc ''W'')) = Some (- 1)"
  "signAt (Some (asc ''n'')) = None"
  "signAt (Some (asc ''s'')) = None"
  "signAt (Some (asc ''e'')) = None"
  "signAt (Some (asc ''w'')) = None"
  by (simp_all add: signAt_def SIGN_INDEX_def asc_def)

lemma signOf_minus: "m 2 = Some (asc ''-'') \<Longrightarrow> signOf m = - 1"
  by (simp add: signOf_def signAt_table)

lemma signOf_leading:
  "m 2 = None \<Longrightarrow> m 1 = Some l \<Longrightarrow> l \<in> {asc ''N'', asc ''S'', asc ''E'', asc ''W''} \<Longrightarrow>
     signOf m = (if l = asc ''S'' \<or> l = asc ''W'' then - 1 else 1)"
  by (elim insertE emptyE; simp add: signOf_def signAt_table; simp add: asc_def)

lemma signOf_trailing:
  "m 2 = None \<Longrightarrow> m 1 = None \<Longrightarrow> m 6 = Some l \<Longrightarrow>
     l \<in> {asc ''N'', asc ''S'', asc ''E'', asc ''W''} \<Longrightarrow>
     signOf m = (if l = asc ''S'' \<or> l = asc ''W'' then - 1 else 1)"
  by (elim insertE emptyE; simp add: signOf_def signAt_table; simp add: asc_def)

lemma signOf_default: "m 2 = None \<Longrightarrow> m 1 = None \<Longrightarrow> m 6 = None \<Longrightarrow> signOf m = 1"
  by (simp add: signOf_def signAt_table)

text \<open>
  C3, evaluated. The grammar matches a hemisphere letter in either case, and
  \<open>SIGN_INDEX\<close> holds the upper-case letters only. A leading \<open>s\<close> is captured as
  the leading hemisphere letter and gives no sign: \<open>s59\<close> is \<open>+59\<close>. In
  \<open>n59\<close>, degree sign, \<open>S\<close> the leading letter is passed over and the trailing one
  decides: the value is \<open>-59\<close>.
\<close>

theorem decDegFromMatch_lowercase_sign:
  "(case match DMS_REGREX (asc ''s59'') of
      None \<Rightarrow> False
    | Some m \<Rightarrow>
        m 1 = Some (asc ''s'') \<and> m 2 = None \<and> m 6 = None
        \<and> decDegFromMatch m = Inr (Fin 59))
   \<and> (case match DMS_REGREX (asc ''n59'' @ [DEGREE] @ asc ''S'') of
      None \<Rightarrow> False
    | Some m \<Rightarrow>
        m 1 = Some (asc ''n'') \<and> m 2 = None \<and> m 6 = Some (asc ''S'')
        \<and> decDegFromMatch m = Inr (Fin (- 59)))"
  by (simp add: eval_defs)

text \<open>
  C9, evaluated. With upper-case letters, 59 degrees S, 2 degrees W is \<open>[-2, -59]\<close>;
  the same string with \<open>s\<close> and \<open>w\<close> is \<open>[2, 59]\<close>.
\<close>

theorem fromDMS_lowercase_hemisphere:
  "fromDMS (asc ''59'' @ [DEGREE] @ asc ''S 02'' @ [DEGREE] @ asc ''W'') = Inr [Fin (- 2), Fin (- 59)]
   \<and> fromDMS (asc ''59'' @ [DEGREE] @ asc ''s 02'' @ [DEGREE] @ asc ''w'') = Inr [Fin 2, Fin 59]"
  by (simp add: fromDMS_def eval_defs)

section \<open>The classifiers and their state\<close>

text \<open>
  C8, evaluated. On the string \<open>1N, 2\<close> both parsers succeed. From the state of a
  freshly loaded module the first call of \<open>isDMM\<close> answers false and leaves
  \<open>lastIndex\<close> at \<open>2\<close>, behind the \<open>N\<close>; the second call searches from there,
  finds nothing and answers true. \<open>isDMS\<close> answers true, then false.
\<close>

theorem classifiers_not_repeatable:
  "isDMM (asc ''1N, 2'') 0 = (False, 2) \<and> isDMM (asc ''1N, 2'') 2 = (True, 0)
   \<and> isDMS (asc ''1N, 2'') 0 = (True, 2) \<and> isDMS (asc ''1N, 2'') 2 = (False, 0)"
  by (simp add: classifier_defs fromDMS_def dmm_defs eval_defs)

text \<open>
  C7, evaluated. From the state of a freshly loaded module, \<open>isDMS\<close> on \<open>1N, 2\<close>
  answers true, and \<open>isDMM\<close> called next on the same string answers true as well,
  although the string holds the special character \<open>N\<close>.
\<close>

theorem isDMS_and_isDMM_both_true:
  "fst (isDMS (asc ''1N, 2'') 0)
   \<and> fst (isDMM (asc ''1N, 2'') (snd (isDMS (asc ''1N, 2'') 0)))
   \<and> 78 \<in> set (asc ''1N, 2'') \<and> 78 \<in> set DOES_CONTAIN_SPECIAL_CHARS"
  by (simp add: classifier_defs fromDMS_def dmm_defs eval_defs)

section \<open>The hemisphere letters of the formatter\<close>

lemma toFixed_ok: "f \<le> 100 \<Longrightarrow> \<exists>s. toFixed big x f = Inr s"
  by (simp add: toFixed_def)

lemma formatFor_X:
  assumes "decimalPlaces opts \<le> 100"
  shows "formatFor big (asc ''X'') opts vals X = Inr X"
proof -
  obtain d m s where
    "toFixed big (degrees vals) (decimalPlaces opts) = Inr d"
    "toFixed big (minutes vals) (decimalPlaces opts) = Inr m"
    "toFixed big (seconds vals) (decimalPlaces opts) = Inr s"
    using assms toFixed_ok by metis
  then show ?thesis
    by (simp add: formatFor_def asc_def)
qed

text \<open>
  C10. With the format \<open>X\<close>, the output of \<open>toDMS\<close> is the latitude letter, the
  separator and the longitude letter: the latitude letter is \<open>N\<close> when
  \<open>latitude > 0\<close> and \<open>S\<close> otherwise, the longitude letter is \<open>E\<close> when
  \<open>longitude > 0\<close> and \<open>W\<close> otherwise. \<open>0 > 0\<close> is false, and with the default
  format and options the coordinate \<open>[0, 0]\<close> is rendered with \<open>S\<close> and \<open>W\<close>.
\<close>

theorem toDMS_hemisphere_letters:
  "(dp \<le> 100 \<longrightarrow>
      toDMS big [lon, lat] (Some (asc ''X''))
        (Some \<lparr>optDecimalPlaces = Some dp, optLatLonSeparator = Some sep\<rparr>)
      = Inr ((if fgt lat (Fin 0) then asc ''N'' else asc ''S'') @ sep
             @ (if fgt lon (Fin 0) then asc ''E'' else asc ''W'')))
   \<and> toDMS big [lon, lat] (Some (asc ''X'')) None
      = Inr ((if fgt lat (Fin 0) then asc ''N'' else asc ''S'') @ asc '' ''
             @ (if fgt lon (Fin 0) then asc ''E'' else asc ''W''))
   \<and> fgt (Fin r) (Fin 0) = (0 < r)
   \<and> toDMS big [Fin 0, Fin 0] None None
      = Inr (asc ''0'' @ [DEGREE] @ asc '' 0'' @ [PRIME] @ asc '' 0.00000'' @ [DPRIME] @ asc '' S ''
             @ asc ''0'' @ [DEGREE] @ asc '' 0'' @ [PRIME] @ asc '' 0.00000'' @ [DPRIME] @ asc '' W'')"
proof -
  have a: "dp \<le> 100 \<Longrightarrow>
      toDMS big [lon, lat] (Some (asc ''X''))
        (Some \<lparr>optDecimalPlaces = Some dp, optLatLonSeparator = Some sep\<rparr>)
      = Inr ((if fgt lat (Fin 0) then asc ''N'' else asc ''S'') @ sep
             @ (if fgt lon (Fin 0) then asc ''E'' else asc ''W''))"
    by (simp add: toDMS_def Let_def formatFor_X computeCoordinateConfig_def)
  have b: "toDMS big [lon, lat] (Some (asc ''X'')) None
      = Inr ((if fgt lat (Fin 0) then asc ''N'' else asc ''S'') @ asc '' ''
             @ (if fgt lon (Fin 0) then asc ''E'' else asc ''W''))"
    by (simp add: toDMS_def Let_def formatFor_X computeCoordinateConfig_def)
  have c: "fgt (Fin r) (Fin 0) = (0 < r)" by (simp add: fgt_def)
  have d: "toDMS big [Fin 0, Fin 0] None None
      = Inr (asc ''0'' @ [DEGREE] @ asc '' 0'' @ [PRIME] @ asc '' 0.00000'' @ [DPRIME] @ asc '' S ''
             @ asc ''0'' @ [DEGREE] @ asc '' 0'' @ [PRIME] @ asc '' 0.00000'' @ [DPRIME] @ asc '' W'')"
    by (simp add: format_defs rnd_def Let_def asc_def)
  from a b c d show ?thesis by blast
qed

theorem toDMS_hemisphere_letters_witness:
  "(5::nat) \<le> 100
   \<and> toDMS (\<lambda>r. []) [Fin 0, Fin 0] (Some (asc ''X''))
        (Some \<lparr>optDecimalPlaces = Some 5, optLatLonSeparator = Some (asc '', '')\<rparr>)
      = Inr (asc ''S, W'')
   \<and> toDMS (\<lambda>r. []) [Fin (- 2), Fin 59] (Some (asc ''X''))
        (Some \<lparr>optDecimalPlaces = Some 5, optLatLonSeparator = Some (asc '', '')\<rparr>)
      = Inr (asc ''N, W'')
   \<and> toDMS (\<lambda>r. []) [Fin 2, Fin (- 59)] (Some (asc ''X'')) None = Inr (asc ''S E'')"
proof -
  have h: "(5::nat) \<le> 100" by simp
  show ?thesis
    using h toDMS_hemisphere_letters [of 5 "\<lambda>r. []" "Fin 0" "Fin 0" "asc '', ''" 0]
      toDMS_hemisphere_letters [of 5 "\<lambda>r. []" "Fin (- 2)" "Fin 59" "asc '', ''" 0]
      toDMS_hemisphere_letters [of 5 "\<lambda>r. []" "Fin 2" "Fin (- 59)" "asc '', ''" 0]
    by (simp add: fgt_def asc_def)
qed

section \<open>The DMM parser\<close>

subsection \<open>Splitting\<close>

lemma splitOn_unfold:
  "splitOn c s =
     takeWhile (\<lambda>x. x \<noteq> c) s #
       (case dropWhile (\<lambda>x. x \<noteq> c) s of [] \<Rightarrow> [] | x # t \<Rightarrow> splitOn c t)"
proof (induction s)
  case Nil
  show ?case by simp
next
  case (Cons a s)
  show ?case
  proof (cases "a = c")
    case True
    then show ?thesis by simp
  next
    case False
    then show ?thesis by (subst splitOn.simps) (simp add: Cons.IH)
  qed
qed

lemma length_splitOn: "length (splitOn c s) = Suc (count_list s c)"
  by (induction s) (auto split: list.splits)

lemma count_takeWhile_dropWhile:
  "count_list s c = 1 \<Longrightarrow>
     c \<in> set s \<and> count_list (drop 1 (dropWhile (\<lambda>x. x \<noteq> c) s)) c = 0"
  by (induction s) (auto split: if_splits simp: count_list_0_iff)

lemma splitOn_no_sep: "count_list s c = 0 \<Longrightarrow> splitOn c s = [s]"
  by (induction s) (auto split: if_splits)

lemma splitOn_one:
  assumes "count_list s c = 1"
  shows "splitOn c s = [takeWhile (\<lambda>x. x \<noteq> c) s, drop 1 (dropWhile (\<lambda>x. x \<noteq> c) s)]"
proof -
  from count_takeWhile_dropWhile [OF assms]
  have in_s: "c \<in> set s" and rest: "count_list (drop 1 (dropWhile (\<lambda>x. x \<noteq> c) s)) c = 0"
    by simp_all
  from in_s obtain x t where dw: "dropWhile (\<lambda>x. x \<noteq> c) s = x # t"
    by (cases "dropWhile (\<lambda>x. x \<noteq> c) s") (auto simp: dropWhile_eq_Nil_conv)
  with rest have "splitOn c t = [t]" by (simp add: splitOn_no_sep)
  with dw show ?thesis by (subst splitOn_unfold) simp
qed


subsection \<open>The source's block and the half of the specification\<close>

lemma halfSign_take: "(if take 1 (trim part) = [MINUS] then - 1 else (1::rat)) = halfSign part"
  by (cases "trim part") (auto simp: halfSign_def)

lemma halfSign_cases: "halfSign part = 1 \<or> halfSign part = - 1"
  by (cases "trim part") (auto simp: halfSign_def)

lemma halfValue_spec:
  "halfValue part =
     (if halfDegrees part = NaN \<or> halfMinutes part = NaN then None else Some (halfOf part))"
proof -
  let ?t = "trim part"
  let ?tok = "takeWhile (\<lambda>c. c \<noteq> SPACE) ?t"
  let ?rest = "case dropWhile (\<lambda>c. c \<noteq> SPACE) ?t of [] \<Rightarrow> [] | x # r \<Rightarrow> splitOn SPACE r"
  have split: "splitOn SPACE ?t = ?tok # ?rest"
    by (rule splitOn_unfold)
  have mins: "(case ?rest of [] \<Rightarrow> Fin 0 | p1 # ps \<Rightarrow> parseFloat p1) = halfMinutes part"
  proof (cases "dropWhile (\<lambda>c. c \<noteq> SPACE) ?t")
    case Nil
    show ?thesis unfolding halfMinutes_def Nil by simp
  next
    case (Cons x r)
    show ?thesis unfolding halfMinutes_def Cons
      by (simp add: splitOn_unfold [of SPACE r])
  qed
  have grad: "(if halfSign part = - 1 then parseFloat (remove1 MINUS ?tok) else parseFloat ?tok)
      = halfDegrees part"
  proof (cases "halfSign part = - 1")
    case True
    then obtain t' where "?t = MINUS # t'"
      by (cases ?t) (auto simp: halfSign_def split: if_splits)
    then show ?thesis using True by (simp add: halfDegrees_def)
  next
    case False
    then show ?thesis by (simp add: halfDegrees_def)
  qed
  show ?thesis
    unfolding halfValue_def halfSign_take Let_def split
    by (simp add: mins grad isNumber_def halfOf_def)
qed


subsection \<open>Rounding stays finite below the overflow threshold\<close>

lemma rnd_not_NaN [simp]: "rnd x \<noteq> NaN"
  by (simp add: rnd_def Let_def del: power_numeral)

lemma pow2_pos: "0 < pow2 q"
  by (simp add: pow2_def)

lemma pow2_le: "q \<le> int n \<Longrightarrow> pow2 q \<le> 2 ^ n"
proof (cases "0 \<le> q")
  case True
  assume "q \<le> int n"
  with True have "nat q \<le> n" by simp
  then have "(2::rat) ^ nat q \<le> 2 ^ n"
    by (intro power_increasing) simp_all
  with True show ?thesis by (simp add: pow2_def)
next
  case False
  have "(1::rat) / 2 ^ nat (- q) \<le> 1"
    by (simp add: divide_le_eq)
  also have "(1::rat) \<le> 2 ^ n" by simp
  finally show ?thesis using False by (simp add: pow2_def)
qed

lemma ilog2_le:
  assumes "0 < a" "a < 2 ^ n"
  shows "ilog2 a \<le> int n"
proof (cases "1 \<le> a")
  case True
  let ?n = "\<lfloor>a\<rfloor>"
  from True have pos: "0 < ?n" by simp
  from assms(2) have lt: "?n < 2 ^ n" by (simp add: floor_less_iff)
  from bitlen_bounds [OF pos] have "2 ^ nat (bitlen ?n - 1) \<le> ?n" by simp
  with lt have "(2::int) ^ nat (bitlen ?n - 1) < 2 ^ n" by linarith
  then have "nat (bitlen ?n - 1) < n"
    by (simp add: power_strict_increasing_iff)
  then show ?thesis using True by (simp add: ilog2_def)
next
  case False
  have "0 \<le> bitlen (\<lceil>1 / a\<rceil> - 1)" by (rule bitlen_nonneg)
  then show ?thesis using False by (simp add: ilog2_def)
qed

lemma roundEven_le: "of_int (roundEven r) \<le> r + 1"
proof -
  have "roundEven r \<le> \<lfloor>r\<rfloor> + 1" by (simp add: roundEven_def Let_def)
  then have "(of_int (roundEven r) :: rat) \<le> of_int (\<lfloor>r\<rfloor> + 1)"
    by (simp only: of_int_le_iff)
  also have "\<dots> \<le> r + 1" by simp
  finally show ?thesis .
qed

lemma roundEven_nonneg: "0 \<le> r \<Longrightarrow> 0 \<le> roundEven r"
  by (simp add: roundEven_def Let_def)

text \<open>The rounded magnitude: it is not negative, and it exceeds the exact one by at most one unit.\<close>

lemma rounded_bounds:
  assumes "0 \<le> a"
  shows "0 \<le> of_int (roundEven (a / pow2 q)) * pow2 q"
    and "of_int (roundEven (a / pow2 q)) * pow2 q \<le> a + pow2 q"
proof -
  have "0 \<le> a / pow2 q" using assms pow2_pos [of q] by simp
  from roundEven_nonneg [OF this] show "0 \<le> of_int (roundEven (a / pow2 q)) * pow2 q"
    using pow2_pos [of q] by simp
  have "of_int (roundEven (a / pow2 q)) * pow2 q \<le> (a / pow2 q + 1) * pow2 q"
    using roundEven_le [of "a / pow2 q"] pow2_pos [of q]
    by (simp add: mult_right_mono)
  also have "\<dots> = a + pow2 q"
    using pow2_pos [of q] by (simp add: field_simps)
  finally show "of_int (roundEven (a / pow2 q)) * pow2 q \<le> a + pow2 q" .
qed

lemma rnd_Fin_bound:
  assumes "rnd x = Fin y"
  shows "\<bar>y\<bar> < 2 ^ 1024"
proof (cases "x = 0")
  case True
  with assms have "y = 0" by (simp add: rnd_def)
  then show ?thesis by simp
next
  case False
  let ?a = "\<bar>x\<bar>"
  let ?q = "max (ilog2 ?a - 52) (- 1074)"
  let ?y = "of_int (roundEven (?a / pow2 ?q)) * pow2 ?q"
  have nn: "0 \<le> ?y" by (rule rounded_bounds) simp
  from assms False have "\<not> 2 ^ 1024 \<le> ?y" and "y = ?y \<or> y = - ?y"
    by (auto simp add: rnd_def Let_def simp del: power_numeral split: if_splits)
  with nn show ?thesis by (auto simp del: power_numeral)
qed

lemma rnd_finite:
  assumes "\<bar>x\<bar> < 2 ^ 1023"
  shows "\<exists>y. rnd x = Fin y"
proof (cases "x = 0")
  case True
  then show ?thesis by (simp add: rnd_def)
next
  case False
  let ?a = "\<bar>x\<bar>"
  let ?q = "max (ilog2 ?a - 52) (- 1074)"
  let ?y = "of_int (roundEven (?a / pow2 ?q)) * pow2 ?q"
  from False have apos: "0 < ?a" by simp
  from ilog2_le [OF apos assms] have "?q \<le> int 1023" by simp
  from pow2_le [OF this] have p: "pow2 ?q \<le> 2 ^ 1023" .
  have "?y \<le> ?a + pow2 ?q" by (rule rounded_bounds) simp
  also have "\<dots> < 2 ^ 1023 + 2 ^ 1023" using assms p by linarith
  also have "\<dots> = (2::rat) ^ Suc 1023" by (simp only: power_Suc)
  finally have "\<not> 2 ^ 1024 \<le> ?y" by (simp del: power_numeral)
  then show ?thesis using False by (simp add: rnd_def Let_def del: power_numeral)
qed


subsection \<open>When a half is not a number\<close>

lemma fneg_Fin_iff: "fneg v = Fin b \<longleftrightarrow> v = Fin (- b)"
  by (cases v) auto

lemma strUnsignedDecimal_bound:
  "strUnsignedDecimal s = Some (Fin b, r) \<Longrightarrow> \<bar>b\<bar> < 2 ^ 1024"
  by (auto simp: strUnsignedDecimal_def Let_def split: if_splits prod.splits
        dest: rnd_Fin_bound simp del: power_numeral)

lemma strDecimal_bound:
  assumes "strDecimal s = Some (Fin b, r)"
  shows "\<bar>b\<bar> < 2 ^ 1024"
proof (cases s)
  case Nil
  with assms show ?thesis by (simp add: strDecimal_def)
next
  case (Cons c t)
  consider "c = PLUS" | "c = MINUS" | "c \<noteq> PLUS" "c \<noteq> MINUS" by blast
  then show ?thesis
  proof cases
    case 1
    with assms Cons have "strUnsignedDecimal t = Some (Fin b, r)"
      by (simp add: strDecimal_def)
    then show ?thesis by (rule strUnsignedDecimal_bound)
  next
    case 2
    with assms Cons obtain v where "strUnsignedDecimal t = Some (v, r)" "fneg v = Fin b"
      by (auto simp: strDecimal_def)
    then have "strUnsignedDecimal t = Some (Fin (- b), r)"
      by (simp add: fneg_Fin_iff)
    from strUnsignedDecimal_bound [OF this] show ?thesis by simp
  next
    case 3
    with assms Cons have "strUnsignedDecimal s = Some (Fin b, r)"
      by (simp add: strDecimal_def)
    then show ?thesis by (rule strUnsignedDecimal_bound)
  qed
qed

lemma parseFloat_bound: "parseFloat s = Fin b \<Longrightarrow> \<bar>b\<bar> < 2 ^ 1024"
  by (auto simp: parseFloat_def split: option.splits dest: strDecimal_bound simp del: power_numeral)

lemma halfMinutes_bound: "halfMinutes part = Fin b \<Longrightarrow> \<bar>b\<bar> < 2 ^ 1024"
  by (auto simp: halfMinutes_def split: list.splits dest: parseFloat_bound simp del: power_numeral)

lemma fdiv_60_finite:
  assumes "\<bar>b\<bar> < 2 ^ 1024"
  shows "\<exists>y. fdiv (Fin b) 60 = Fin y"
proof -
  have "(2::rat) ^ 1024 = 2 * 2 ^ 1023"
    by (simp only: power_Suc [symmetric]) simp
  with assms have "\<bar>b\<bar> < 2 * 2 ^ 1023" by (simp only:)
  moreover have "(0::rat) < 2 ^ 1023" by (simp del: power_numeral)
  ultimately have "\<bar>b / 60\<bar> < 2 ^ 1023"
    by (simp add: abs_divide del: power_numeral)
  from rnd_finite [OF this] show ?thesis by simp
qed

lemma fmul_sign_NaN: "s \<noteq> 0 \<Longrightarrow> fmul (Fin s) z = NaN \<longleftrightarrow> z = NaN"
  by (cases z) auto

lemma fadd_NaN:
  "fadd a b = NaN \<longleftrightarrow> a = NaN \<or> b = NaN \<or> (a = PInf \<and> b = NInf) \<or> (a = NInf \<and> b = PInf)"
  by (cases a; cases b) auto

lemma halfOf_NaN: "halfOf part = NaN \<longleftrightarrow> badHalf part"
proof -
  have s: "halfSign part \<noteq> 0" using halfSign_cases [of part] by auto
  show ?thesis
  proof (cases "halfMinutes part")
    case (Fin b)
    from fdiv_60_finite [OF halfMinutes_bound [OF Fin]] obtain y where "fdiv (Fin b) 60 = Fin y" ..
    with Fin show ?thesis
      by (simp add: halfOf_def badHalf_def fmul_sign_NaN [OF s] fadd_NaN)
  qed (auto simp: halfOf_def badHalf_def fmul_sign_NaN [OF s] fadd_NaN)
qed

lemma fromDMM_unfold:
  "fromDMM value =
     (let v = trim value
      in if count_list v COMMA \<noteq> 1 \<or> badHalf (latHalf v) \<or> badHalf (lonHalf v)
         then Inl ParseError
         else if \<not> inRange (halfOf (lonHalf v)) (Fin (- 180)) (Fin 180)
                 \<or> \<not> inRange (halfOf (latHalf v)) (Fin (- 90)) (Fin 90)
         then Inl PairRangeError
         else Inr [halfOf (lonHalf v), halfOf (latHalf v)])"
proof -
  let ?v = "trim value"
  show ?thesis
  proof (cases "count_list ?v COMMA = 1")
    case True
    from count_takeWhile_dropWhile [OF True] have mem: "COMMA \<in> set ?v" by simp
    have parts: "splitOn COMMA ?v = [latHalf ?v, lonHalf ?v]"
      using splitOn_one [OF True] by (simp add: latHalf_def lonHalf_def)
    have num: "isNumber (halfValue p) \<longleftrightarrow> \<not> badHalf p" for p
      using halfOf_NaN [of p]
      by (auto simp: halfValue_spec isNumber_def badHalf_def)
    have val: "\<not> badHalf p \<Longrightarrow> toNum (halfValue p) = halfOf p" for p
      by (auto simp: halfValue_spec toNum_def badHalf_def)
    show ?thesis
      using True mem by (auto simp: fromDMM_def Let_def parts num val)
  next
    case False
    have "length (splitOn COMMA ?v) \<noteq> 2"
      using False by (simp add: length_splitOn)
    then have "(case splitOn COMMA ?v of [part0, part1] \<Rightarrow> f part0 part1 | _ \<Rightarrow> Inl ParseError)
        = Inl ParseError" for f :: "jsstring \<Rightarrow> jsstring \<Rightarrow> error + jsnum list"
      by (auto split: list.splits)
    then show ?thesis using False by (simp add: fromDMM_def Let_def)
  qed
qed


lemmas half_defs = latHalf_def lonHalf_def halfSign_def halfDegrees_def halfMinutes_def halfOf_def badHalf_def

text \<open>
  C4, as stated, fails. On \<open>Infinity -Infinity, 0\<close> there is one comma and two parts,
  and every token parses as a number in the sense of \<open>isNumber\<close>: \<open>Infinity\<close>,
  \<open>-Infinity\<close> and \<open>0\<close>. The latitude is \<open>Infinity + (-Infinity) / 60\<close>, which is
  not a number, and \<open>fromDMM\<close> fails with \<open>ParseError\<close>.
\<close>

theorem fromDMM_parse_error_counterexample:
  "fromDMM (asc ''Infinity -Infinity, 0'') = Inl ParseError
   \<and> COMMA \<in> set (trim (asc ''Infinity -Infinity, 0''))
   \<and> splitOn COMMA (trim (asc ''Infinity -Infinity, 0'')) = [asc ''Infinity -Infinity'', asc '' 0'']
   \<and> splitOn SPACE (trim (asc ''Infinity -Infinity'')) = [asc ''Infinity'', asc ''-Infinity'']
   \<and> parseFloat (asc ''Infinity'') = PInf \<and> isNumber (Some PInf)
   \<and> parseFloat (asc ''-Infinity'') = NInf \<and> isNumber (Some NInf)
   \<and> splitOn SPACE (trim (asc '' 0'')) = [asc ''0'']
   \<and> parseFloat (asc ''0'') = Fin 0 \<and> isNumber (Some (Fin 0))"
  by (simp add: dmm_defs eval_defs)



text \<open>
  C4, amended. \<open>fromDMM\<close> fails with \<open>ParseError\<close> exactly when the trimmed input
  does not hold exactly one comma (no comma, or not two parts), or one of the halves is
  bad: a degree or minute token parses as not-a-number, or the degrees and minutes of a
  half parse as infinities of opposite sign. When there is one comma and no half is bad,
  it fails with the pair-level \<open>RangeError\<close> exactly when the longitude is outside
  \<open>[-180, 180]\<close> or the latitude outside \<open>[-90, 90]\<close>, and returns
  \<open>[longitude, latitude]\<close> exactly when both are inside.
\<close>

theorem fromDMM_errors:
  "(fromDMM value = Inl ParseError \<longleftrightarrow>
      count_list (trim value) COMMA \<noteq> 1
      \<or> badHalf (latHalf (trim value)) \<or> badHalf (lonHalf (trim value)))
   \<and> (count_list (trim value) COMMA = 1
        \<and> \<not> badHalf (latHalf (trim value)) \<and> \<not> badHalf (lonHalf (trim value)) \<longrightarrow>
        (fromDMM value = Inl PairRangeError \<longleftrightarrow>
           \<not> inRange (halfOf (lonHalf (trim value))) (Fin (- 180)) (Fin 180)
           \<or> \<not> inRange (halfOf (latHalf (trim value))) (Fin (- 90)) (Fin 90))
        \<and> (fromDMM value = Inr [halfOf (lonHalf (trim value)), halfOf (latHalf (trim value))] \<longleftrightarrow>
           inRange (halfOf (lonHalf (trim value))) (Fin (- 180)) (Fin 180)
           \<and> inRange (halfOf (latHalf (trim value))) (Fin (- 90)) (Fin 90)))
   \<and> (COMMA \<notin> set (trim value) \<longrightarrow> count_list (trim value) COMMA \<noteq> 1)
   \<and> length (splitOn COMMA (trim value)) = Suc (count_list (trim value) COMMA)"
proof -
  have "COMMA \<notin> set (trim value) \<longrightarrow> count_list (trim value) COMMA \<noteq> 1"
    by (simp add: count_list_0_iff)
  then show ?thesis
    unfolding fromDMM_unfold Let_def by (simp add: length_splitOn)
qed

theorem fromDMM_errors_witness:
  "count_list (trim (asc ''41 30, -2 15'')) COMMA = 1
   \<and> \<not> badHalf (latHalf (trim (asc ''41 30, -2 15'')))
   \<and> \<not> badHalf (lonHalf (trim (asc ''41 30, -2 15'')))
   \<and> halfOf (lonHalf (trim (asc ''41 30, -2 15''))) = Fin (- (9 / 4))
   \<and> halfOf (latHalf (trim (asc ''41 30, -2 15''))) = Fin (83 / 2)
   \<and> fromDMM (asc ''41 30, -2 15'') = Inr [Fin (- (9 / 4)), Fin (83 / 2)]
   \<and> COMMA \<notin> set (trim (asc ''41 30''))
   \<and> fromDMM (asc ''41 30'') = Inl ParseError
   \<and> fromDMM (asc ''91, 2'') = Inl PairRangeError"
proof -
  have a: "count_list (trim (asc ''41 30, -2 15'')) COMMA = 1
     \<and> \<not> badHalf (latHalf (trim (asc ''41 30, -2 15'')))
     \<and> \<not> badHalf (lonHalf (trim (asc ''41 30, -2 15'')))
     \<and> halfOf (lonHalf (trim (asc ''41 30, -2 15''))) = Fin (- (9 / 4))
     \<and> halfOf (latHalf (trim (asc ''41 30, -2 15''))) = Fin (83 / 2)"
    by (simp add: half_defs eval_defs)
  have b: "COMMA \<notin> set (trim (asc ''41 30''))"
    by (simp add: eval_defs)
  have c: "count_list (trim (asc ''91, 2'')) COMMA = 1
     \<and> \<not> badHalf (latHalf (trim (asc ''91, 2'')))
     \<and> \<not> badHalf (lonHalf (trim (asc ''91, 2'')))
     \<and> halfOf (latHalf (trim (asc ''91, 2''))) = Fin 91"
    by (simp add: half_defs eval_defs)
  from a fromDMM_errors [of "asc ''41 30, -2 15''"]
  have a': "fromDMM (asc ''41 30, -2 15'') = Inr [Fin (- (9 / 4)), Fin (83 / 2)]"
    by simp
  from b fromDMM_errors [of "asc ''41 30''"]
  have b': "fromDMM (asc ''41 30'') = Inl ParseError"
    by simp
  from c fromDMM_errors [of "asc ''91, 2''"]
  have c': "fromDMM (asc ''91, 2'') = Inl PairRangeError"
    by simp
  from a a' b b' c' show ?thesis by simp
qed


text \<open>
  C5, as stated, fails. A tab is white space and does not separate tokens: on
  \<open>41<tab>30, 2\<close> the latitude is \<open>41\<close>, not \<open>41 + 30 / 60\<close>. The degrees are
  not an unsigned magnitude either: on \<open>--5, 3\<close> the sign is \<open>-1\<close>, the first
  token less its first minus reads as \<open>-5\<close>, and the latitude is \<open>+5\<close>.
\<close>

theorem fromDMM_half_counterexample:
  "fromDMM (asc ''41'' @ [9] @ asc ''30, 2'') = Inr [Fin 2, Fin 41]
   \<and> isWS 9
   \<and> fmul (Fin 1) (fadd (parseFloat (asc ''41'')) (fdiv (parseFloat (asc ''30'')) 60)) = Fin (83 / 2)
   \<and> fromDMM (asc ''--5, 3'') = Inr [Fin 3, Fin 5]
   \<and> take 1 (trim (asc ''--5'')) = [MINUS]"
  by (simp add: dmm_defs eval_defs)


text \<open>
  C5, amended. When \<open>fromDMM\<close> succeeds there is exactly one comma and the result is
  \<open>[value of the longitude half, value of the latitude half]\<close>, where the value of a
  half is \<open>sign * (degrees + minutes / 60)\<close>: the half is trimmed; the sign is \<open>-1\<close>
  exactly when the trimmed half starts with a minus and \<open>1\<close> otherwise; the tokens are
  separated by the space character; the degrees are \<open>parseFloat\<close> of the first token
  less its leading minus when the sign is \<open>-1\<close>; the minutes are \<open>parseFloat\<close> of
  the second token, and \<open>0\<close> when there is no space in the half.
\<close>

theorem fromDMM_half_values:
  "(fromDMM value = Inr r \<longrightarrow>
      count_list (trim value) COMMA = 1
      \<and> r = [halfOf (lonHalf (trim value)), halfOf (latHalf (trim value))])
   \<and> halfOf part
      = fmul (Fin (halfSign part)) (fadd (halfDegrees part) (fdiv (halfMinutes part) 60))
   \<and> (halfSign part = - 1 \<longleftrightarrow> (\<exists>t. trim part = MINUS # t))
   \<and> (halfSign part = 1 \<longleftrightarrow> \<not> (\<exists>t. trim part = MINUS # t))
   \<and> (SPACE \<notin> set (trim part) \<longrightarrow> halfMinutes part = Fin 0)"
proof -
  have a: "fromDMM value = Inr r \<longrightarrow>
      count_list (trim value) COMMA = 1
      \<and> r = [halfOf (lonHalf (trim value)), halfOf (latHalf (trim value))]"
    unfolding fromDMM_unfold Let_def by (auto split: if_splits)
  have b: "(halfSign part = - 1 \<longleftrightarrow> (\<exists>t. trim part = MINUS # t))"
    "(halfSign part = 1 \<longleftrightarrow> \<not> (\<exists>t. trim part = MINUS # t))"
    by (cases "trim part"; simp add: halfSign_def)+
  have c: "SPACE \<notin> set (trim part) \<longrightarrow> halfMinutes part = Fin 0"
  proof
    assume "SPACE \<notin> set (trim part)"
    then have "dropWhile (\<lambda>c. c \<noteq> SPACE) (trim part) = []"
      by (auto simp: dropWhile_eq_Nil_conv)
    then show "halfMinutes part = Fin 0"
      unfolding halfMinutes_def by (simp only: list.case)
  qed
  from a b c show ?thesis by (simp add: halfOf_def)
qed

theorem fromDMM_half_values_witness:
  "fromDMM (asc ''41 30, -2 15'') = Inr [Fin (- (9 / 4)), Fin (83 / 2)]
   \<and> count_list (trim (asc ''41 30, -2 15'')) COMMA = 1
   \<and> [Fin (- (9 / 4)), Fin (83 / 2)]
      = [halfOf (lonHalf (trim (asc ''41 30, -2 15''))), halfOf (latHalf (trim (asc ''41 30, -2 15'')))]
   \<and> halfSign (asc '' -2 15'') = - 1 \<and> halfDegrees (asc '' -2 15'') = Fin 2
   \<and> halfMinutes (asc '' -2 15'') = Fin 15
   \<and> SPACE \<notin> set (trim (asc '' 2'')) \<and> halfMinutes (asc '' 2'') = Fin 0"
proof -
  have a: "fromDMM (asc ''41 30, -2 15'') = Inr [Fin (- (9 / 4)), Fin (83 / 2)]"
    by (simp add: dmm_defs eval_defs)
  have b: "halfSign (asc '' -2 15'') = - 1 \<and> halfDegrees (asc '' -2 15'') = Fin 2
     \<and> halfMinutes (asc '' -2 15'') = Fin 15"
    by (simp add: half_defs eval_defs)
  have c: "SPACE \<notin> set (trim (asc '' 2''))"
    by (simp add: eval_defs)
  from a fromDMM_half_values [of "asc ''41 30, -2 15''" "[Fin (- (9 / 4)), Fin (83 / 2)]" "asc '' 2''"] b c
  show ?thesis by simp
qed


section \<open>The round trip\<close>

text \<open>The three Numbers of the round trip, as the exact rationals they are.\<close>

lemma literal_149_128684:
  "LON_149_128684 = Fin (5246999106973847 / 35184372088832)"
  by (simp add: LON_149_128684_def parse_defs num_defs string_defs isDigit_def isWS_def)

lemma literal_149_12868400000002:
  "LON_149_12868400000002 = Fin (655874888371731 / 4398046511104)"
  by (simp add: LON_149_12868400000002_def parse_defs num_defs string_defs isDigit_def isWS_def)

lemma literal_minus_35_282:
  "LAT_MINUS_35_282 = Fin (- (2482750032076341 / 70368744177664))"
  by (simp add: LAT_MINUS_35_282_def parse_defs num_defs string_defs isDigit_def isWS_def)

lemma toDMS_149_128684:
  "toDMS big [Fin (5246999106973847 / 35184372088832), Fin (- (2482750032076341 / 70368744177664))]
     None None = Inr ROUND_TRIP_TEXT"
  by (simp add: format_defs num_defs asc_def ROUND_TRIP_TEXT_def)

lemma toDMS_149_12868400000002:
  "toDMS big [Fin (655874888371731 / 4398046511104), Fin (- (2482750032076341 / 70368744177664))]
     None None = Inr ROUND_TRIP_TEXT"
  by (simp add: format_defs num_defs asc_def ROUND_TRIP_TEXT_def)

lemma fromDMS_round_trip_text:
  "fromDMS ROUND_TRIP_TEXT
     = Inr [Fin (655874888371731 / 4398046511104), Fin (- (2482750032076341 / 70368744177664))]"
  by (simp add: fromDMS_def eval_defs ROUND_TRIP_TEXT_def)

text \<open>
  C6, as stated, fails. \<open>fromDMS\<close> applied to the string returns the longitude
  \<open>149 + 7 / 60 + 43.2624 / 3600\<close> computed in binary64, which is the Number
  \<open>149.12868400000002\<close>, one unit in the last place above \<open>149.128684\<close>.
\<close>

theorem round_trip_counterexample:
  "fromDMS ROUND_TRIP_TEXT = Inr [LON_149_12868400000002, LAT_MINUS_35_282]
   \<and> LON_149_12868400000002 \<noteq> LON_149_128684
   \<and> fromDMS ROUND_TRIP_TEXT \<noteq> Inr [LON_149_128684, LAT_MINUS_35_282]"
  by (simp add: fromDMS_round_trip_text literal_149_128684 literal_149_12868400000002
        literal_minus_35_282)

text \<open>
  C6, amended. \<open>toDMS\<close> applied to \<open>[149.128684, -35.282]\<close> with the default format
  and options returns exactly the string of the test. \<open>fromDMS\<close> applied to that
  string returns \<open>[149.12868400000002, -35.282]\<close>: the latitude is the original one,
  the longitude the original plus \<open>2 ^ -45\<close>, its unit in the last place. \<open>toDMS\<close>
  maps that pair to the same string, so from \<open>[149.12868400000002, -35.282]\<close> the
  round trip is exact.
\<close>

theorem round_trip:
  "toDMS big [LON_149_128684, LAT_MINUS_35_282] None None = Inr ROUND_TRIP_TEXT
   \<and> fromDMS ROUND_TRIP_TEXT = Inr [LON_149_12868400000002, LAT_MINUS_35_282]
   \<and> toDMS big [LON_149_12868400000002, LAT_MINUS_35_282] None None = Inr ROUND_TRIP_TEXT
   \<and> LON_149_12868400000002 = fadd LON_149_128684 (Fin (1 / 2 ^ 45))"
  by (simp add: fromDMS_round_trip_text literal_149_128684 literal_149_12868400000002
        literal_minus_35_282 toDMS_149_128684 toDMS_149_12868400000002 num_defs)

theorem round_trip_witness:
  "toDMS (\<lambda>r. []) [LON_149_128684, LAT_MINUS_35_282] None None = Inr ROUND_TRIP_TEXT
   \<and> fromDMS ROUND_TRIP_TEXT
      = Inr [Fin (655874888371731 / 4398046511104), Fin (- (2482750032076341 / 70368744177664))]"
  using round_trip [of "\<lambda>r. []"]
  by (simp add: literal_149_12868400000002 literal_minus_35_282)

section \<open>The tests of the repository\<close>

text \<open>
  The model run on inputs of the repository's test file, with the results the tests
  expect. The expected Numbers are written as the exact rationals they are: the first
  lemma evaluates the expressions the test file computes them with,
  \<open>-1 * (2 + 15 / 60 + 39.6 / 3600)\<close> and \<open>59 + 12 / 60 + 7.7 / 3600\<close>.
\<close>

lemma expected_hemisphere_at_end:
  "fmul (Fin (- 1)) (fadd (fadd (Fin 2) (fdiv (Fin 15) 60)) (fdiv (Number (asc ''39.6'')) 3600))
     = Fin (- (2545659689371173 / 1125899906842624))"
  "fadd (fadd (Fin 59) (fdiv (Fin 12) 60)) (fdiv (Number (asc ''7.7'')) 3600)
     = Fin (8331960332485511 / 140737488355328)"
  by (simp_all add: parse_defs num_defs string_defs isDigit_def isWS_def)

lemma test_fromDMS_hemisphere_at_end:
  "fromDMS (asc ''59'' @ [DEGREE] @ asc ''12'' @ [APOS] @ asc ''7.7'' @ [DQUOTE] @ asc ''N 02''
            @ [DEGREE] @ asc ''15'' @ [APOS] @ asc ''39.6'' @ [DQUOTE] @ asc ''W'')
     = Inr [Fin (- (2545659689371173 / 1125899906842624)), Fin (8331960332485511 / 140737488355328)]"
  "fromDMS (asc ''59 12'' @ [APOS] @ asc '' 7.7'' @ [DQUOTE] @ asc '' N 02 15'' @ [APOS]
            @ asc '' 39.6'' @ [DQUOTE] @ asc '' W'')
     = Inr [Fin (- (2545659689371173 / 1125899906842624)), Fin (8331960332485511 / 140737488355328)]"
  "fromDMS (asc ''59:12:7.7'' @ [DQUOTE] @ asc ''N 2:15:39.6W'')
     = Inr [Fin (- (2545659689371173 / 1125899906842624)), Fin (8331960332485511 / 140737488355328)]"
  "fromDMS (asc ''59 12'' @ [RSQUO] @ asc ''7.7'' @ [RSQUO, RSQUO] @ asc ''N 02 15'' @ [RSQUO]
            @ asc ''39.6'' @ [RSQUO, RSQUO] @ asc ''W'')
     = Inr [Fin (- (2545659689371173 / 1125899906842624)), Fin (8331960332485511 / 140737488355328)]"
  "fromDMS (asc ''59'' @ [DEGREE] @ asc ''12'' @ [APOS] @ asc ''7.7'' @ [DQUOTE] @ asc '', -02''
            @ [DEGREE] @ asc ''15'' @ [APOS] @ asc ''39.6'' @ [DQUOTE])
     = Inr [Fin (- (2545659689371173 / 1125899906842624)), Fin (8331960332485511 / 140737488355328)]"
  by (simp_all add: fromDMS_def eval_defs)

lemma test_fromDMS_errors:
  "fromDMS (asc ''Not DMS string'') = Inl ParseError"
  "fromDMS (asc ''190'' @ [DEGREE] @ asc ''12'' @ [APOS] @ asc ''7.7'' @ [DQUOTE] @ asc '' -02''
            @ [DEGREE] @ asc ''15'' @ [APOS] @ asc ''39.6'' @ [DQUOTE]) = Inl DegreesOutOfRange"
  "fromDMS (asc ''59'' @ [DEGREE] @ asc ''65'' @ [APOS] @ asc ''7.7'' @ [DQUOTE] @ asc '' -02''
            @ [DEGREE] @ asc ''15'' @ [APOS] @ asc ''39.6'' @ [DQUOTE]) = Inl MinutesOutOfRange"
  "fromDMS (asc ''59'' @ [DEGREE] @ asc ''12'' @ [APOS] @ asc ''65.5'' @ [DQUOTE] @ asc '' -02''
            @ [DEGREE] @ asc ''15'' @ [APOS] @ asc ''39.6'' @ [DQUOTE]) = Inl SecondsOutOfRange"
  by (simp_all add: fromDMS_def eval_defs)

lemma test_fromDMS_decimal_degrees:
  "fromDMS (asc ''51.5, -0.126'') = Inr [Number (asc ''-0.126''), Number (asc ''51.5'')]"
  "fromDMS (asc ''51.5 -0.126'') = Inr [Number (asc ''-0.126''), Number (asc ''51.5'')]"
  "fromDMS (asc ''59'' @ [DEGREE] @ asc ''N 02'' @ [DEGREE] @ asc ''W'') = Inr [Fin (- 2), Fin 59]"
  by (simp_all add: fromDMS_def eval_defs)

lemma test_toDMS_formats:
  "toDMS big [LON_149_128684, LAT_MINUS_35_282] (Some (asc ''DD mm X'')) None
     = Inr (asc ''35'' @ [DEGREE] @ asc '' 16.92000'' @ [PRIME] @ asc '' S 149'' @ [DEGREE]
            @ asc '' 7.72104'' @ [PRIME] @ asc '' E'')"
  "toDMS big [LON_149_128684, LAT_MINUS_35_282] (Some (asc ''dd X'')) None
     = Inr (asc ''35.28200'' @ [DEGREE] @ asc '' S 149.12868'' @ [DEGREE] @ asc '' E'')"
  "toDMS big [LON_149_128684, LAT_MINUS_35_282] (Some (asc ''-D M s''))
       (Some \<lparr>optDecimalPlaces = None, optLatLonSeparator = Some (asc '', '')\<rparr>)
     = Inr (asc ''-35 16 55.20000, 149 7 43.26240'')"
  "toDMS big [LON_149_128684, LAT_MINUS_35_282] None
       (Some \<lparr>optDecimalPlaces = Some 0, optLatLonSeparator = None\<rparr>)
     = Inr (asc ''35'' @ [DEGREE] @ asc '' 16'' @ [PRIME] @ asc '' 55'' @ [DPRIME] @ asc '' S 149''
            @ [DEGREE] @ asc '' 7'' @ [PRIME] @ asc '' 43'' @ [DPRIME] @ asc '' E'')"
  by (simp_all add: literal_149_128684 literal_minus_35_282 format_defs num_defs asc_def)

lemma test_fromDMM:
  "fromDMM (asc ''41 24.2028, -2 10.4418'')
     = Inr [Fin (- (1223870087236535 / 562949953421312)), Fin (1456751927655305 / 35184372088832)]"
  "fromDMM (asc ''41.40338, -2.17403'')
     = Inr [Fin (- (1223870087236535 / 562949953421312)), Fin (1456751927655305 / 35184372088832)]"
  "fromDMM (asc ''Not DMS string'') = Inl ParseError"
  "fromDMM (asc ''41 24.2028, -'') = Inl ParseError"
  by (simp_all add: dmm_defs eval_defs)

lemma test_classifiers:
  "isDMM (asc ''41 24.2028, 2 10.4418'') 0 = (True, 0)"
  "isDMS (asc ''41 24.2028, 2 10.4418'') 0 = (False, 0)"
  "isDMM (asc ''41'' @ [DEGREE] @ asc ''24'' @ [APOS] @ asc ''12.2'' @ [DQUOTE] @ asc ''N 2''
          @ [DEGREE] @ asc ''10'' @ [APOS] @ asc ''26.5'' @ [DQUOTE] @ asc ''E'') 0 = (False, 0)"
  "isDMS (asc ''41'' @ [DEGREE] @ asc ''24'' @ [APOS] @ asc ''12.2'' @ [DQUOTE] @ asc ''N 2''
          @ [DEGREE] @ asc ''10'' @ [APOS] @ asc ''26.5'' @ [DQUOTE] @ asc ''E'') 0 = (True, 0)"
  by (simp_all add: classifier_defs fromDMS_def dmm_defs eval_defs)

end
